theory Spec2Isabelle
  imports Complex_Main "HOL-Library.Sublist"
begin

section \<open>Data model (types.ts)\<close>

text \<open>
  Timestamps, intervals and timeouts are JavaScript numbers holding integers
  (\<^verbatim>\<open>Date.now()\<close> milliseconds, configured values); they are modelled as \<open>int\<close>.
  A field that may be \<^verbatim>\<open>null\<close> or \<^verbatim>\<open>undefined\<close> is an \<open>option\<close>.
\<close>

datatype MonitorType = Http | Icmp

text \<open>\<^verbatim>\<open>ServiceConfig = HttpServiceConfig | IcmpServiceConfig\<close>, discriminated by \<^verbatim>\<open>type\<close>.\<close>

datatype ServiceConfig =
    HttpServiceConfig (cfg_id: string) (cfg_name: string) (cfg_interval: int) (cfg_timeout: int)
      (cfg_url: string)
  | IcmpServiceConfig (cfg_id: string) (cfg_name: string) (cfg_interval: int) (cfg_timeout: int)
      (cfg_host: string)

fun cfg_type :: "ServiceConfig \<Rightarrow> MonitorType" where
  "cfg_type (HttpServiceConfig _ _ _ _ _) = Http"
| "cfg_type (IcmpServiceConfig _ _ _ _ _) = Icmp"

record MonitoringResult =
  serviceId :: string
  timestamp :: int
  success :: bool
  duration :: int
  error :: "string option"

record MonitorConfig =
  maxConcurrent :: int
  timeout :: int
  retryAttempts :: int

section \<open>Platform values: thrown values, strings, responses\<close>

text \<open>
  A thrown value is an \<^verbatim>\<open>Error\<close> instance (name, message, optional \<^verbatim>\<open>code\<close>) or
  anything else, kept as its \<^verbatim>\<open>String(err)\<close> rendering.
\<close>

datatype thrown =
    JsError (err_name: string) (err_message: string) (err_code: "string option")
  | NonError string

text \<open>\<^verbatim>\<open>err instanceof Error ? err.message : String(err)\<close>\<close>

fun message_of :: "thrown \<Rightarrow> string" where
  "message_of (JsError _ m _) = m"
| "message_of (NonError s) = s"

text \<open>\<^verbatim>\<open>s.includes(sub)\<close>\<close>

fun str_includes :: "string \<Rightarrow> string \<Rightarrow> bool" where
  "str_includes [] sub = (sub = [])"
| "str_includes (c # cs) sub = (prefix sub (c # cs) \<or> str_includes cs sub)"

text \<open>\<^verbatim>\<open>s.toLowerCase()\<close> on ASCII letters.\<close>

definition toLowerCase :: "string \<Rightarrow> string" where
  "toLowerCase s =
     map (\<lambda>c. let n = (of_char c :: nat) in if 65 \<le> n \<and> n \<le> 90 then char_of (n + 32) else c) s"

text \<open>Decimal rendering of a non-negative integer, as a template literal prints it.\<close>

fun string_of_nat :: "nat \<Rightarrow> string" where
  "string_of_nat n =
     (if n < 10 then [char_of (48 + n)]
      else string_of_nat (n div 10) @ [char_of (48 + n mod 10)])"

text \<open>\<^verbatim>\<open>a || b\<close> on a number: \<open>0\<close> is falsy.\<close>

definition or_number :: "int \<Rightarrow> int \<Rightarrow> int" where
  "or_number a b = (if a = 0 then b else a)"

text \<open>\<^verbatim>\<open>a || b\<close> on a string or null: \<^verbatim>\<open>null\<close>, \<^verbatim>\<open>undefined\<close> and the empty string are falsy.\<close>

definition or_string :: "string option \<Rightarrow> string \<Rightarrow> string" where
  "or_string a b = (case a of None \<Rightarrow> b | Some s \<Rightarrow> if s = [] then b else s)"

text \<open>Values produced by \<^verbatim>\<open>JSON.parse\<close> / \<^verbatim>\<open>response.json()\<close>. An object is its list of
  own properties, read with \<open>map_of\<close>.\<close>

datatype json =
    JNull
  | JBool bool
  | JNum rat
  | JStr string
  | JArr "json list"
  | JObj "(string \<times> json) list"

text \<open>
  A fetch \<^verbatim>\<open>Response\<close>: \<open>body_json\<close> is what \<^verbatim>\<open>await response.json()\<close> yields, \<open>None\<close> when
  it throws. \<^verbatim>\<open>response.ok\<close> is the Fetch standard's range 200..299.
\<close>

record Response =
  status :: nat
  statusText :: string
  body_json :: "json option"

definition ok :: "Response \<Rightarrow> bool" where
  "ok response = (200 \<le> status response \<and> status response \<le> 299)"

datatype fetch_outcome = Resolves Response | Rejects thrown

text \<open>
  The transport capability "perform one HTTP request": for a url, the abort timeout armed
  around the call and the attempt number, how many milliseconds \<^verbatim>\<open>await fetch(...)\<close> takes
  and whether it resolves with a response or throws (an abort by the timeout included).
\<close>

type_synonym fetch_fn = "string \<Rightarrow> int \<Rightarrow> nat \<Rightarrow> nat \<times> fetch_outcome"

text \<open>What a check did to the outside world, in order.\<close>

datatype io_event = Fetch string int nat | Ping string int nat | Sleep nat

fun event_ms :: "io_event \<Rightarrow> nat" where
  "event_ms (Fetch _ _ ms) = ms"
| "event_ms (Ping _ _ ms) = ms"
| "event_ms (Sleep ms) = ms"

text \<open>
  The local variables of a check, the clock read by \<^verbatim>\<open>Date.now()\<close> and the trace of
  awaited calls. Only awaited calls take time.
\<close>

record check_vars =
  clock :: int
  error_var :: "string option"
  success_var :: bool
  duration_var :: int
  trace :: "io_event list"

definition await_io :: "io_event \<Rightarrow> check_vars \<Rightarrow> check_vars" where
  "await_io e v = v\<lparr>clock := clock v + int (event_ms e), trace := trace v @ [e]\<rparr>"

declare string_of_nat.simps [simp del]

section \<open>UptimeMonitor.checkHttpService, first variant (part_001)\<close>

function http_loop1 ::
  "MonitorConfig \<Rightarrow> fetch_fn \<Rightarrow> ServiceConfig \<Rightarrow> nat \<Rightarrow> check_vars \<Rightarrow> check_vars" where
  "http_loop1 config fetch service attempt v =
     (if int attempt \<le> retryAttempts config then
        (let u = (if cfg_type service = Http then cfg_url service else []);
             t = or_number (cfg_timeout service) (timeout config)
         in case fetch u t attempt of
           (ms, Resolves response) \<Rightarrow>
             (let v1 = await_io (Fetch u t ms) v
              in v1\<lparr>success_var := ok response,
                    error_var := (if ok response then None
                                  else Some (''HTTP '' @ string_of_nat (status response) @ '': ''
                                             @ statusText response))\<rparr>)
         | (ms, Rejects err) \<Rightarrow>
             (let v1 = (await_io (Fetch u t ms) v)\<lparr>error_var := Some (message_of err)\<rparr>
              in if int attempt = retryAttempts config then v1
                 else http_loop1 config fetch service (attempt + 1) (await_io (Sleep 1000) v1)))
      else v)"
  by pat_completeness auto
termination
  by (relation "measure (\<lambda>(config, fetch, service, attempt, v).
        nat (retryAttempts config + 1 - int attempt))") auto

declare http_loop1.simps [simp del]

definition checkHttpService1 ::
  "MonitorConfig \<Rightarrow> fetch_fn \<Rightarrow> int \<Rightarrow> ServiceConfig \<Rightarrow> MonitoringResult \<times> io_event list" where
  "checkHttpService1 config fetch now service =
     (let startTime = now;
          v = http_loop1 config fetch service 1
                \<lparr>clock = now, error_var = None, success_var = False, duration_var = 0, trace = []\<rparr>;
          endTime = clock v
      in (\<lparr>serviceId = cfg_id service, timestamp = clock v, success = success_var v,
            duration = endTime - startTime, error = error_var v\<rparr>, trace v))"

section \<open>UptimeMonitor.checkHttpService, second variant (part_002)\<close>

text \<open>Property read \<^verbatim>\<open>item.key\<close>: a \<^verbatim>\<open>TypeError\<close> on \<^verbatim>\<open>null\<close>, \<^verbatim>\<open>undefined\<close> (\<open>None\<close>)
  where the value has no such property. None of the keys read below is a property of an
  array, a string, a number or a boolean.\<close>

fun get_prop :: "json \<Rightarrow> string \<Rightarrow> thrown + json option" where
  "get_prop JNull key =
     Inl (JsError ''TypeError'' (''Cannot read properties of null (reading '' @ key @ '')'') None)"
| "get_prop (JObj props) key = Inr (map_of props key)"
| "get_prop _ key = Inr None"

text \<open>\<^verbatim>\<open>typeof\<close> of a value or of \<^verbatim>\<open>undefined\<close>.\<close>

fun js_typeof :: "json option \<Rightarrow> string" where
  "js_typeof None = ''undefined''"
| "js_typeof (Some JNull) = ''object''"
| "js_typeof (Some (JBool _)) = ''boolean''"
| "js_typeof (Some (JNum _)) = ''number''"
| "js_typeof (Some (JStr _)) = ''string''"
| "js_typeof (Some (JArr _)) = ''object''"
| "js_typeof (Some (JObj _)) = ''object''"

fun isArray :: "json option \<Rightarrow> bool" where
  "isArray (Some (JArr _)) = True"
| "isArray _ = False"

text \<open>\<^verbatim>\<open>a && b\<close> where evaluating either side may throw: \<open>b\<close> is not evaluated when \<open>a\<close> is
  false or throws.\<close>

definition and_also :: "thrown + bool \<Rightarrow> thrown + bool \<Rightarrow> thrown + bool" where
  "and_also a b = (case a of Inl e \<Rightarrow> Inl e | Inr x \<Rightarrow> if x then b else Inr False)"

definition prop_test :: "json \<Rightarrow> string \<Rightarrow> (json option \<Rightarrow> bool) \<Rightarrow> thrown + bool" where
  "prop_test item key p = (case get_prop item key of Inl e \<Rightarrow> Inl e | Inr x \<Rightarrow> Inr (p x))"

text \<open>The arrow function passed to \<^verbatim>\<open>data.every\<close> (part_002, lines 73 to 83).\<close>

definition item_valid :: "json \<Rightarrow> thrown + bool" where
  "item_valid item =
     and_also (Inr (js_typeof (Some item) = ''object''))
    (and_also (prop_test item ''id'' (\<lambda>x. js_typeof x = ''string''))
    (and_also (prop_test item ''name'' (\<lambda>x. js_typeof x = ''string''))
    (and_also (prop_test item ''type'' (\<lambda>x. js_typeof x = ''string''))
    (and_also (case prop_test item ''type'' (\<lambda>x. x = Some (JStr ''http'')) of
                 Inl e \<Rightarrow> Inl e
               | Inr x \<Rightarrow> if x then Inr True
                          else prop_test item ''type'' (\<lambda>x. x = Some (JStr ''icmp'')))
    (and_also (prop_test item ''interval'' (\<lambda>x. js_typeof x = ''number''))
    (and_also (prop_test item ''timeout'' (\<lambda>x. js_typeof x = ''number''))
    (and_also (prop_test item ''lastStatus'' (\<lambda>x. js_typeof x = ''boolean''))
              (prop_test item ''assignedSlaves'' isArray))))))))"

text \<open>\<^verbatim>\<open>Array.prototype.every\<close>: stops at the first false element, or where the callback
  throws.\<close>

fun every :: "('a \<Rightarrow> thrown + bool) \<Rightarrow> 'a list \<Rightarrow> thrown + bool" where
  "every f [] = Inr True"
| "every f (x # xs) =
     (case f x of Inl e \<Rightarrow> Inl e | Inr b \<Rightarrow> if b then every f xs else Inr False)"

text \<open>Lines 67 to 103: what a received response sets \<^verbatim>\<open>success\<close> and \<^verbatim>\<open>error\<close> to. The
  inner \<^verbatim>\<open>try\<close> encloses both \<^verbatim>\<open>response.json()\<close> and the validation, so a throw in
  either is reported as invalid JSON.\<close>

definition on_response2 :: "Response \<Rightarrow> bool \<times> string option" where
  "on_response2 response =
     (if status response = 200 then
        (case body_json response of
           None \<Rightarrow> (False, Some ''Invalid JSON response'')
         | Some data \<Rightarrow>
             (case data of
                JArr items \<Rightarrow>
                  (case every item_valid items of
                     Inl e \<Rightarrow> (False, Some ''Invalid JSON response'')
                   | Inr isValid \<Rightarrow>
                       if isValid then (True, None)
                       else (False, Some ''Invalid response data format''))
              | _ \<Rightarrow> (False, Some ''Response is not an array of services'')))
      else (False, Some (''HTTP '' @ string_of_nat (status response) @ '': ''
                         @ statusText response)))"

text \<open>Lines 107 to 123: the error text for a thrown value.\<close>

definition classify_error :: "thrown \<Rightarrow> string" where
  "classify_error err =
     (let isTimeout = (case err of
            JsError n m _ \<Rightarrow> n = ''AbortError'' \<or> str_includes m ''timeout'' \<or> str_includes m ''abort''
          | NonError _ \<Rightarrow> False);
          isTlsError = (case err of
            JsError n m _ \<Rightarrow> str_includes m ''TLS'' \<or> str_includes m ''SSL'' \<or> str_includes m ''CERT''
          | NonError _ \<Rightarrow> False)
      in if isTimeout then ''Request timed out''
         else if isTlsError then ''TLS connection failed''
         else message_of err)"

text \<open>The loop of lines 47 to 130. Reading and validating the body takes no model time.\<close>

function http_loop2 ::
  "MonitorConfig \<Rightarrow> fetch_fn \<Rightarrow> ServiceConfig \<Rightarrow> int \<Rightarrow> nat \<Rightarrow> check_vars \<Rightarrow> check_vars" where
  "http_loop2 config fetch service startTime attempt v =
     (if int attempt \<le> retryAttempts config then
        (let t = or_number (cfg_timeout service) (timeout config);
             fetchStartTime = clock v
         in case fetch (cfg_url service) t attempt of
           (ms, Resolves response) \<Rightarrow>
             (let v1 = await_io (Fetch (cfg_url service) t ms) v;
                  v2 = v1\<lparr>duration_var := clock v1 - fetchStartTime\<rparr>
              in v2\<lparr>success_var := fst (on_response2 response),
                    error_var := snd (on_response2 response)\<rparr>)
         | (ms, Rejects err) \<Rightarrow>
             (let v1 = await_io (Fetch (cfg_url service) t ms) v;
                  v2 = v1\<lparr>duration_var := clock v1 - startTime,
                          error_var := Some (classify_error err)\<rparr>
              in if int attempt = retryAttempts config then v2
                 else http_loop2 config fetch service startTime (attempt + 1)
                        (await_io (Sleep 1000) v2)))
      else v)"
  by pat_completeness auto
termination
  by (relation "measure (\<lambda>(config, fetch, service, startTime, attempt, v).
        nat (retryAttempts config + 1 - int attempt))") auto

declare http_loop2.simps [simp del]

definition checkHttpService2 ::
  "MonitorConfig \<Rightarrow> fetch_fn \<Rightarrow> int \<Rightarrow> ServiceConfig
     \<Rightarrow> thrown + (MonitoringResult \<times> io_event list)" where
  "checkHttpService2 config fetch now service =
     (if cfg_type service \<noteq> Http
      then Inl (JsError ''Error'' ''Invalid service type: expected HTTP service'' None)
      else
        (let startTime = now;
             v = http_loop2 config fetch service startTime 1
                   \<lparr>clock = now, error_var = None, success_var = False, duration_var = 0,
                    trace = []\<rparr>
         in Inr (\<lparr>serviceId = cfg_id service, timestamp = clock v, success = success_var v,
                  duration = duration_var v,
                  error = Some (or_string (error_var v) ''Unknown error'')\<rparr>, trace v)))"

section \<open>UptimeMonitor.checkIcmpService (part_002)\<close>

record PingResult =
  alive :: bool
  time :: "rat option"
  ping_error :: "string option"

datatype ping_outcome = PingResolves PingResult | PingRejects thrown

text \<open>The capability "perform one ICMP probe": host, timeout and attempt number give the
  milliseconds the awaited \<^verbatim>\<open>ping(...)\<close> takes and its outcome.\<close>

type_synonym ping_fn = "string \<Rightarrow> int \<Rightarrow> nat \<Rightarrow> nat \<times> ping_outcome"

text \<open>Lines 154 to 161: the error text after a ping that resolved.\<close>

definition icmp_error :: "PingResult \<Rightarrow> string option" where
  "icmp_error result =
     (let error0 = (if alive result then None
                    else Some (or_string (ping_error result) ''Host is not responding to ICMP''))
      in case error0 of
           None \<Rightarrow> None
         | Some m \<Rightarrow>
             if str_includes (toLowerCase m) ''permission denied''
             then Some ''Permission denied for ICMP check. Configure sudo privileges.''
             else Some m)"

text \<open>One pass through the \<^verbatim>\<open>try\<close> block: the type test throws before any ping is made.\<close>

definition icmp_try ::
  "MonitorConfig \<Rightarrow> ping_fn \<Rightarrow> ServiceConfig \<Rightarrow> nat \<Rightarrow> check_vars
     \<Rightarrow> check_vars \<times> (thrown + PingResult)" where
  "icmp_try config ping service attempt v =
     (if cfg_type service \<noteq> Icmp then (v, Inl (JsError ''Error'' ''Invalid service type'' None))
      else
        (let t = or_number (cfg_timeout service) (timeout config)
         in case ping (cfg_host service) t attempt of
              (ms, PingResolves result) \<Rightarrow> (await_io (Ping (cfg_host service) t ms) v, Inr result)
            | (ms, PingRejects err) \<Rightarrow> (await_io (Ping (cfg_host service) t ms) v, Inl err)))"

function icmp_loop ::
  "MonitorConfig \<Rightarrow> ping_fn \<Rightarrow> ServiceConfig \<Rightarrow> nat \<Rightarrow> check_vars \<Rightarrow> check_vars" where
  "icmp_loop config ping service attempt v =
     (if int attempt \<le> retryAttempts config then
        (case icmp_try config ping service attempt v of
           (v1, Inr result) \<Rightarrow>
             v1\<lparr>success_var := alive result, error_var := icmp_error result\<rparr>
         | (v1, Inl err) \<Rightarrow>
             (let v2 = v1\<lparr>error_var := Some (message_of err)\<rparr>
              in if int attempt = retryAttempts config then v2
                 else icmp_loop config ping service (attempt + 1) (await_io (Sleep 1000) v2)))
      else v)"
  by pat_completeness auto
termination
  by (relation "measure (\<lambda>(config, ping, service, attempt, v).
        nat (retryAttempts config + 1 - int attempt))") auto

declare icmp_loop.simps [simp del]

definition checkIcmpService ::
  "MonitorConfig \<Rightarrow> ping_fn \<Rightarrow> int \<Rightarrow> ServiceConfig \<Rightarrow> MonitoringResult \<times> io_event list" where
  "checkIcmpService config ping now service =
     (let startTime = now;
          v = icmp_loop config ping service 1
                \<lparr>clock = now, error_var = None, success_var = False, duration_var = 0, trace = []\<rparr>;
          endTime = clock v
      in (\<lparr>serviceId = cfg_id service, timestamp = clock v, success = success_var v,
            duration = endTime - startTime, error = error_var v\<rparr>, trace v))"

section \<open>The ping helper (utils/ping.ts)\<close>

text \<open>
  \<^verbatim>\<open>ping.ts\<close> holds two versions of \<^verbatim>\<open>ping(host, options)\<close>. Each turns a lower capability
  into the awaited call the monitor makes, and each always resolves: a failure of the
  probe becomes a result with \<^verbatim>\<open>alive: false\<close>.
\<close>

text \<open>The version built on the \<^verbatim>\<open>ping\<close> module: \<^verbatim>\<open>pingModule.promise.probe(host, config)\<close> with
  the timeout in seconds, for the attempt number, takes some milliseconds and resolves
  with a response or throws.\<close>

record PingResponse =
  resp_alive :: bool
  resp_output :: string
  resp_time :: rat

datatype probe_outcome = ProbeResolves PingResponse | ProbeRejects thrown

type_synonym probe_fn = "string \<Rightarrow> rat \<Rightarrow> nat \<Rightarrow> nat \<times> probe_outcome"

definition ping_module :: "probe_fn \<Rightarrow> ping_fn" where
  "ping_module probe host t attempt =
     (let timeout = or_number t 5000
      in case probe host (of_int timeout / 1000) attempt of
           (ms, ProbeResolves result) \<Rightarrow>
             (ms, PingResolves
                    \<lparr>alive = resp_alive result, time = Some (resp_time result),
                     ping_error = (if resp_alive result then None
                                   else Some (resp_output result))\<rparr>)
         | (ms, ProbeRejects err) \<Rightarrow>
             (ms, PingResolves
                    \<lparr>alive = False, time = Some (of_int timeout),
                     ping_error = Some (message_of err)\<rparr>))"

text \<open>
  The version that spawns the \<^verbatim>\<open>ping\<close> command: the process closes after some milliseconds
  or never, with an exit code, the number that follows \<^verbatim>\<open>time=\<close> in its output if the
  pattern of line 43 matches, and its error output. A timeout armed beside it kills the
  process and resolves first unless the process has closed before.
\<close>

record ping_process =
  closes_after :: "nat option"
  exit_code :: int
  matched_time :: "rat option"
  stderr_text :: string

type_synonym spawn_fn = "string \<Rightarrow> rat \<Rightarrow> nat \<Rightarrow> ping_process"

definition ping_spawn :: "spawn_fn \<Rightarrow> ping_fn" where
  "ping_spawn spawn host t attempt =
     (let timeout = or_number t 5000;
          p = spawn host (of_int timeout / 1000) attempt;
          timed_out = (nat timeout,
                       PingResolves \<lparr>alive = False, time = Some (of_int timeout),
                                     ping_error = Some ''Timeout''\<rparr>)
      in case closes_after p of
           None \<Rightarrow> timed_out
         | Some ms \<Rightarrow>
             if int ms < timeout then
               (ms, PingResolves
                      (if exit_code p = 0
                       then \<lparr>alive = True,
                             time = Some (case matched_time p of
                                            Some x \<Rightarrow> x | None \<Rightarrow> of_nat ms),
                             ping_error = None\<rparr>
                       else \<lparr>alive = False, time = Some (of_nat ms),
                             ping_error = Some (or_string (Some (stderr_text p))
                                                  ''Host unreachable'')\<rparr>))
             else timed_out)"


section \<open>Vocabulary for statements about checks\<close>

text \<open>The probe attempts in a trace and the waits between them.\<close>

fun is_probe :: "io_event \<Rightarrow> bool" where
  "is_probe (Sleep _) = False"
| "is_probe _ = True"

definition probe_attempts :: "io_event list \<Rightarrow> nat" where
  "probe_attempts tr = length (filter is_probe tr)"

definition sleeps :: "io_event list \<Rightarrow> io_event list" where
  "sleeps tr = filter (\<lambda>e. \<not> is_probe e) tr"

text \<open>
  The service-status shape in the words of the specification: an object with string \<^verbatim>\<open>id\<close>
  and \<^verbatim>\<open>name\<close>, \<^verbatim>\<open>type\<close> equal to \<^verbatim>\<open>'http'\<close> or \<^verbatim>\<open>'icmp'\<close>, numeric \<^verbatim>\<open>interval\<close> and
  \<^verbatim>\<open>timeout\<close>, boolean \<^verbatim>\<open>lastStatus\<close> and an array \<^verbatim>\<open>assignedSlaves\<close>. It is compared with
  \<open>item_valid\<close>, which follows the source.
\<close>

fun is_str :: "json option \<Rightarrow> bool" where
  "is_str (Some (JStr _)) = True"
| "is_str _ = False"

fun is_num :: "json option \<Rightarrow> bool" where
  "is_num (Some (JNum _)) = True"
| "is_num _ = False"

fun is_bool :: "json option \<Rightarrow> bool" where
  "is_bool (Some (JBool _)) = True"
| "is_bool _ = False"

definition service_status_shape :: "json \<Rightarrow> bool" where
  "service_status_shape item =
     (case item of
        JObj props \<Rightarrow>
          is_str (map_of props ''id'') \<and> is_str (map_of props ''name'') \<and>
          (map_of props ''type'' = Some (JStr ''http'') \<or>
           map_of props ''type'' = Some (JStr ''icmp'')) \<and>
          is_num (map_of props ''interval'') \<and> is_num (map_of props ''timeout'') \<and>
          is_bool (map_of props ''lastStatus'') \<and> isArray (map_of props ''assignedSlaves'')
      | _ \<Rightarrow> False)"

text \<open>Concrete inputs used to run the checks.\<close>

definition example_config :: MonitorConfig where
  "example_config = \<lparr>maxConcurrent = 50, timeout = 30000, retryAttempts = 3\<rparr>"

definition example_http :: ServiceConfig where
  "example_http = HttpServiceConfig ''svc-1'' ''api'' 60 5000 ''http://api.test/status''"

definition example_icmp :: ServiceConfig where
  "example_icmp = IcmpServiceConfig ''svc-2'' ''router'' 60 5000 ''10.0.0.7''"

definition example_item :: json where
  "example_item =
     JObj [(''id'', JStr ''svc-9''), (''name'', JStr ''db''), (''type'', JStr ''icmp''),
           (''interval'', JNum 60), (''timeout'', JNum 5000), (''lastStatus'', JBool True),
           (''assignedSlaves'', JArr [JStr ''slave1''])]"

text \<open>An endpoint that answers every request with status 500 after 20 ms.\<close>

definition always_500 :: fetch_fn where
  "always_500 u t n =
     (20, Resolves \<lparr>status = 500, statusText = ''Internal Server Error'', body_json = None\<rparr>)"

text \<open>An endpoint whose first request fails after 50 ms and whose later requests answer
  200 with a one-element status list after 20 ms.\<close>

definition flaky_fetch :: fetch_fn where
  "flaky_fetch u t n =
     (if n = 1 then (50, Rejects (JsError ''TypeError'' ''fetch failed'' None))
      else (20, Resolves \<lparr>status = 200, statusText = ''OK'',
                          body_json = Some (JArr [example_item])\<rparr>))"

text \<open>A host that answers every probe after 12 ms.\<close>

definition steady_probe :: probe_fn where
  "steady_probe h t n =
     (12, ProbeResolves \<lparr>resp_alive = True, resp_output = ''1 packets received'',
                         resp_time = 11\<rparr>)"

section \<open>Uptime state (types.ts, Storage.calculateUptimePercentages)\<close>

text \<open>
  The result of a JavaScript division: a finite number, an infinity or \<^verbatim>\<open>NaN\<close>. Finite
  results are kept as exact rationals (floating-point rounding is not modelled; it does
  not move a value across the bounds 0 and 100 nor change which operations yield
  \<^verbatim>\<open>NaN\<close>). All operands below are integer timestamps and their differences.
\<close>

datatype jsnum = Fin rat | PosInf | NegInf | NaN

text \<open>\<^verbatim>\<open>a / b\<close> for integer-valued numbers; a zero divisor is \<open>+0\<close>.\<close>

definition js_div :: "int \<Rightarrow> int \<Rightarrow> jsnum" where
  "js_div a b =
     (if b = 0 then (if a = 0 then NaN else if 0 < a then PosInf else NegInf)
      else Fin (of_int a / of_int b))"

text \<open>\<^verbatim>\<open>x * 100\<close>\<close>

fun js_times100 :: "jsnum \<Rightarrow> jsnum" where
  "js_times100 (Fin q) = Fin (q * 100)"
| "js_times100 PosInf = PosInf"
| "js_times100 NegInf = NegInf"
| "js_times100 NaN = NaN"

text \<open>\<^verbatim>\<open>Math.min\<close> and \<^verbatim>\<open>Math.max\<close>: \<^verbatim>\<open>NaN\<close> if either argument is \<^verbatim>\<open>NaN\<close>.\<close>

fun js_min :: "jsnum \<Rightarrow> jsnum \<Rightarrow> jsnum" where
  "js_min NaN _ = NaN"
| "js_min _ NaN = NaN"
| "js_min NegInf _ = NegInf"
| "js_min _ NegInf = NegInf"
| "js_min PosInf y = y"
| "js_min x PosInf = x"
| "js_min (Fin a) (Fin b) = Fin (min a b)"

fun js_max :: "jsnum \<Rightarrow> jsnum \<Rightarrow> jsnum" where
  "js_max NaN _ = NaN"
| "js_max _ NaN = NaN"
| "js_max PosInf _ = PosInf"
| "js_max _ PosInf = PosInf"
| "js_max NegInf y = y"
| "js_max x NegInf = x"
| "js_max (Fin a) (Fin b) = Fin (max a b)"

record DowntimePeriod =
  period_start :: int
  period_end :: "int option"

text \<open>In memory the two percentages are numbers; in a document read back from JSON they
  can be \<^verbatim>\<open>null\<close> (\<open>None\<close>), which is how \<^verbatim>\<open>JSON.stringify\<close> writes \<^verbatim>\<open>NaN\<close> and the
  infinities.\<close>

record ServiceStatus =
  status_id :: string
  status_name :: string
  status_type :: MonitorType
  status_url :: "string option"
  status_host :: "string option"
  status_interval :: int
  status_timeout :: int
  createdAt :: int
  lastCheck :: int
  lastStatus :: bool
  uptimePercentage :: "jsnum option"
  uptimePercentage30d :: "jsnum option"
  assignedSlaves :: "string list"
  lastDowntime :: "DowntimePeriod option"
  downtimePeriods :: "DowntimePeriod list"

record UptimePercentages =
  total :: jsnum
  last30d :: jsnum

text \<open>\<^verbatim>\<open>period.end || currentTime\<close>: \<^verbatim>\<open>null\<close> and \<open>0\<close> are falsy.\<close>

definition end_or :: "DowntimePeriod \<Rightarrow> int \<Rightarrow> int" where
  "end_or period currentTime =
     (case period_end period of None \<Rightarrow> currentTime | Some e \<Rightarrow> or_number e currentTime)"

definition thirtyDays :: int where
  "thirtyDays = 30 * 24 * 60 * 60 * 1000"

text \<open>Lines 238 to 241.\<close>

definition totalDowntimeMs :: "ServiceStatus \<Rightarrow> int \<Rightarrow> int" where
  "totalDowntimeMs service currentTime =
     foldl (\<lambda>acc period. acc + (end_or period currentTime - period_start period)) 0
       (downtimePeriods service)"

text \<open>Lines 245 to 251.\<close>

definition recent30dDowntimeMs :: "ServiceStatus \<Rightarrow> int \<Rightarrow> int" where
  "recent30dDowntimeMs service currentTime =
     (let thirtyDaysAgo = currentTime - thirtyDays
      in foldl (\<lambda>acc period.
                  let start = max (period_start period) thirtyDaysAgo;
                      end = end_or period currentTime
                  in acc + (end - start)) 0
           (filter (\<lambda>period. period_start period \<ge> thirtyDaysAgo) (downtimePeriods service)))"

definition calculateUptimePercentages :: "ServiceStatus \<Rightarrow> int \<Rightarrow> UptimePercentages" where
  "calculateUptimePercentages service currentTime =
     (let thirtyDaysAgo = currentTime - thirtyDays;
          totalTime = currentTime - createdAt service;
          totalUptimePercentage =
            js_times100 (js_div (totalTime - totalDowntimeMs service currentTime) totalTime);
          timeWindow30d = min totalTime (currentTime - thirtyDaysAgo);
          uptime30dPercentage =
            js_times100
              (js_div (timeWindow30d - recent30dDowntimeMs service currentTime) timeWindow30d)
      in \<lparr>total = js_max (Fin 0) (js_min (Fin 100) totalUptimePercentage),
          last30d = js_max (Fin 0) (js_min (Fin 100) uptime30dPercentage)\<rparr>)"

text \<open>Membership in the closed interval from 0 to 100; \<^verbatim>\<open>NaN\<close> and the infinities are
  outside.\<close>

fun in_percent_range :: "jsnum \<Rightarrow> bool" where
  "in_percent_range (Fin q) = (0 \<le> q \<and> q \<le> 100)"
| "in_percent_range _ = False"

text \<open>
  The 30-day downtime in the words of the specification: every period that overlaps the
  window from \<open>currentTime - 30d\<close> to \<open>currentTime\<close> contributes its length clipped to the
  window. It is compared with \<open>recent30dDowntimeMs\<close>, which follows the source.
\<close>

definition clipped_downtime30d :: "ServiceStatus \<Rightarrow> int \<Rightarrow> int" where
  "clipped_downtime30d service currentTime =
     (let windowStart = currentTime - thirtyDays
      in sum_list
           (map (\<lambda>period. min (end_or period currentTime) currentTime
                            - max (period_start period) windowStart)
              (filter (\<lambda>period. end_or period currentTime \<ge> windowStart
                                \<and> period_start period \<le> currentTime)
                 (downtimePeriods service))))"

text \<open>The status \<open>addService\<close> creates for a config at time \<open>now\<close> (lines 204 to 220).\<close>

definition new_status :: "ServiceConfig \<Rightarrow> int \<Rightarrow> ServiceStatus" where
  "new_status service now =
     \<lparr>status_id = cfg_id service, status_name = cfg_name service,
      status_type = cfg_type service,
      status_url = (case service of HttpServiceConfig _ _ _ _ u \<Rightarrow> Some u | _ \<Rightarrow> None),
      status_host = (case service of IcmpServiceConfig _ _ _ _ h \<Rightarrow> Some h | _ \<Rightarrow> None),
      status_interval = cfg_interval service, status_timeout = cfg_timeout service,
      createdAt = now, lastCheck = now, lastStatus = True,
      uptimePercentage = Some (Fin 100), uptimePercentage30d = Some (Fin 100),
      assignedSlaves = [], lastDowntime = None, downtimePeriods = []\<rparr>"

text \<open>A service created at time 0 whose only outage began on day 5 and is still open.\<close>

definition long_outage_status :: ServiceStatus where
  "long_outage_status =
     (new_status example_http 0)
       \<lparr>lastStatus := False,
        lastDowntime := Some \<lparr>period_start = 5 * 86400000, period_end = None\<rparr>,
        downtimePeriods := [\<lparr>period_start = 5 * 86400000, period_end = None\<rparr>]\<rparr>"

section \<open>Storage (part_001): the coordinator's durable store\<close>

record SlaveStats =
  cpuUsage :: "rat option"
  memoryUsage :: "rat option"
  uptime :: "rat option"

record SlaveStatus =
  slave_id :: string
  slave_name :: "string option"
  lastHeartbeat :: int
  isActive :: bool
  slave_services :: "string list"
  slave_host :: "string option"
  slave_port :: "int option"
  region :: "string option"
  datacenter :: "string option"
  version :: "string option"
  stats :: "SlaveStats option"

text \<open>\<^verbatim>\<open>StorageData\<close>; the source's field \<^verbatim>\<open>services.status\<close> is \<open>statuses\<close> here.\<close>

record Services =
  configs :: "ServiceConfig list"
  statuses :: "ServiceStatus list"

record StorageData =
  services :: Services
  slaves :: "SlaveStatus list"
  lastUpdated :: int

text \<open>
  The content of the state file. A text that parses as JSON is represented by the document
  it denotes, any other text by itself. Only documents of the \<^verbatim>\<open>StorageData\<close> shape are
  represented (the source casts the parsed value without checking it), so the object
  spread over \<^verbatim>\<open>initializeEmptyState()\<close> yields the loaded document's fields.
\<close>

datatype file_content = JsonText StorageData | Unparseable string

text \<open>\<^verbatim>\<open>JSON.stringify\<close> writes \<^verbatim>\<open>NaN\<close> and the infinities as \<^verbatim>\<open>null\<close>; every other value of
  a document is written as it is.\<close>

fun json_number :: "jsnum option \<Rightarrow> jsnum option" where
  "json_number (Some (Fin q)) = Some (Fin q)"
| "json_number _ = None"

definition json_status :: "ServiceStatus \<Rightarrow> ServiceStatus" where
  "json_status s = s\<lparr>uptimePercentage := json_number (uptimePercentage s),
                     uptimePercentage30d := json_number (uptimePercentage30d s)\<rparr>"

definition JSON_stringify :: "StorageData \<Rightarrow> file_content" where
  "JSON_stringify d =
     JsonText (d\<lparr>services := (services d)\<lparr>statuses := map json_status (statuses (services d))\<rparr>\<rparr>)"

fun JSON_parse :: "file_content \<Rightarrow> thrown + StorageData" where
  "JSON_parse (JsonText d) = Inr d"
| "JSON_parse (Unparseable s) = Inl (JsError ''SyntaxError'' ''Unexpected token in JSON'' None)"

datatype log_level = LogInfo | LogWarn | LogError

text \<open>A timeout armed by \<^verbatim>\<open>setTimeout\<close>: its handle, when it fires, and the argument its
  callback passes to \<^verbatim>\<open>save\<close>.\<close>

record timer =
  timer_id :: nat
  fires_at :: int
  timer_arg :: "StorageData option"

text \<open>
  The \<^verbatim>\<open>Storage\<close> object (the first four fields) together with the platform it runs on:
  the clock, the data directory and state file, the console, the armed timeouts in the
  order they were armed, the times at which timer callbacks that await their \<^verbatim>\<open>save\<close>
  resume, the next timer handle, the time a write takes, and a record of every
  \<^verbatim>\<open>writeFile\<close> call. All timeouts have the same delay and all writes take the same
  time, so the events of each queue happen in the order in which they were queued.
  Console texts are given without their emoji.
\<close>

record store =
  initialized :: bool
  data :: StorageData
  saveTimeout :: "nat option"
  saveDebounceMs :: int
  time_now :: int
  dir_exists :: bool
  state_file :: "file_content option"
  console :: "(log_level \<times> string) list"
  armed :: "timer list"
  resuming :: "int list"
  next_timer :: nat
  write_ms :: nat
  writes :: "(int \<times> file_content) list"

definition console_log :: "log_level \<Rightarrow> string \<Rightarrow> store \<Rightarrow> store" where
  "console_log level msg st = st\<lparr>console := console st @ [(level, msg)]\<rparr>"

text \<open>The private \<^verbatim>\<open>log\<close> method.\<close>

definition log_storage :: "string \<Rightarrow> store \<Rightarrow> store" where
  "log_storage message st = console_log LogInfo (''[STORAGE] '' @ message) st"

definition ensureInitialized :: "store \<Rightarrow> thrown option" where
  "ensureInitialized st =
     (if \<not> initialized st
      then Some (JsError ''Error'' ''Storage not initialized. Call initialize() first.'' None)
      else None)"

definition initializeEmptyState :: "store \<Rightarrow> StorageData" where
  "initializeEmptyState st =
     \<lparr>services = \<lparr>configs = [], statuses = []\<rparr>, slaves = [], lastUpdated = time_now st\<rparr>"

text \<open>\<^verbatim>\<open>{...this.initializeEmptyState(), ...loaded}\<close>\<close>

definition spread_over :: "StorageData \<Rightarrow> StorageData \<Rightarrow> StorageData" where
  "spread_over defaults loaded =
     defaults\<lparr>services := services loaded, slaves := slaves loaded,
           lastUpdated := lastUpdated loaded\<rparr>"

text \<open>\<^verbatim>\<open>new Storage(path)\<close> at time \<open>t\<close> on a disk with the given directory and file.\<close>

definition new_Storage :: "int \<Rightarrow> bool \<Rightarrow> file_content option \<Rightarrow> nat \<Rightarrow> store" where
  "new_Storage t dir f w =
     \<lparr>initialized = False,
      data = \<lparr>services = \<lparr>configs = [], statuses = []\<rparr>, slaves = [], lastUpdated = t\<rparr>,
      saveTimeout = None, saveDebounceMs = 5000, time_now = t, dir_exists = dir, state_file = f,
      console = [], armed = [], resuming = [], next_timer = 0, write_ms = w, writes = []\<rparr>"

text \<open>\<^verbatim>\<open>readFile(this.filePath, 'utf-8')\<close>: a missing file is the only failure modelled.\<close>

definition readFile :: "store \<Rightarrow> thrown + file_content" where
  "readFile st =
     (case state_file st of
        None \<Rightarrow> Inl (JsError ''Error'' ''ENOENT: no such file or directory'' (Some ''ENOENT''))
      | Some content \<Rightarrow> Inr content)"

text \<open>
  The object \<^verbatim>\<open>dataToSave\<close> after \<^verbatim>\<open>dataToSave.lastUpdated = Date.now()\<close>: the state passed
  to \<^verbatim>\<open>save\<close>, or \<^verbatim>\<open>this.data\<close> when none is passed. The assignment mutates the object
  itself, so a caller that passed a state holds the stamped object afterwards.
\<close>

definition stamp :: "StorageData option \<Rightarrow> store \<Rightarrow> StorageData" where
  "stamp state st =
     (case state of Some s \<Rightarrow> s | None \<Rightarrow> data st)\<lparr>lastUpdated := time_now st\<rparr>"

text \<open>
  \<^verbatim>\<open>save\<close> up to its \<^verbatim>\<open>await writeFile(...)\<close>: the check, the choice of the data, the
  stamp and the write, which the file holds from then on. \<open>save_end\<close> is the rest, run when
  the write has completed. Writing the file and creating the directory do not fail here.
\<close>

definition save_begin :: "StorageData option \<Rightarrow> store \<Rightarrow> thrown + store" where
  "save_begin state st =
     (case ensureInitialized st of
        Some e \<Rightarrow> Inl e
      | None \<Rightarrow>
          (let dataToSave = stamp state st
           in Inr (st\<lparr>data := (case state of Some s \<Rightarrow> data st | None \<Rightarrow> dataToSave),
                      state_file := Some (JSON_stringify dataToSave),
                      writes := writes st @ [(time_now st, JSON_stringify dataToSave)]\<rparr>)))"

definition save_end :: "store \<Rightarrow> store" where
  "save_end st = log_storage ''Saved monitor state'' st"

definition load :: "store \<Rightarrow> store \<times> (thrown + StorageData)" where
  "load st =
     (case ensureInitialized st of
        Some e \<Rightarrow> (st, Inl e)
      | None \<Rightarrow>
          (case readFile st of
             Inl e \<Rightarrow> (console_log LogError ''Failed to load monitor state'' st, Inl e)
           | Inr fileContent \<Rightarrow>
               (case JSON_parse fileContent of
                  Inl e \<Rightarrow> (console_log LogError ''Failed to load monitor state'' st, Inl e)
                | Inr d \<Rightarrow> (st, Inr d))))"

definition loadState :: "store \<Rightarrow> thrown + StorageData" where
  "loadState st =
     (case (case readFile st of
              Inl e \<Rightarrow> Inl e
            | Inr content \<Rightarrow>
                (case JSON_parse content of
                   Inl e \<Rightarrow> Inl e
                 | Inr state \<Rightarrow> Inr (spread_over (initializeEmptyState st) state))) of
        Inr d \<Rightarrow> Inr d
      | Inl e \<Rightarrow>
          (case e of
             JsError n m c \<Rightarrow> if c = Some ''ENOENT'' then Inr (initializeEmptyState st) else Inl e
           | NonError s \<Rightarrow> Inl e))"

text \<open>\<^verbatim>\<open>debouncedSave\<close>: \<^verbatim>\<open>clearTimeout\<close> disarms the timeout whose handle is stored (nothing
  happens if it has fired already), and a new timeout is armed.\<close>

definition debouncedSave :: "StorageData option \<Rightarrow> store \<Rightarrow> store" where
  "debouncedSave state st =
     (let st1 = (case saveTimeout st of
                   Some h \<Rightarrow> st\<lparr>armed := filter (\<lambda>tm. timer_id tm \<noteq> h) (armed st)\<rparr>
                 | None \<Rightarrow> st);
          n = next_timer st1
      in st1\<lparr>armed := armed st1 @ [\<lparr>timer_id = n, fires_at = time_now st1 + saveDebounceMs st1,
                                     timer_arg = state\<rparr>],
             saveTimeout := Some n,
             next_timer := n + 1\<rparr>)"

text \<open>
  The timeout's callback \<^verbatim>\<open>async () => { await this.save(state); this.saveTimeout = null; }\<close>
  in two steps: up to the \<^verbatim>\<open>await\<close> of the write (a \<^verbatim>\<open>save\<close> that throws ends the callback),
  and from the completed write on.
\<close>

definition callback_begin :: "timer \<Rightarrow> store \<Rightarrow> store" where
  "callback_begin tm st =
     (case save_begin (timer_arg tm) st of
        Inl e \<Rightarrow> st
      | Inr st1 \<Rightarrow> st1\<lparr>resuming := resuming st1 @ [time_now st1 + int (write_ms st1)]\<rparr>)"

definition callback_resume :: "store \<Rightarrow> store" where
  "callback_resume st = (save_end st)\<lparr>saveTimeout := None\<rparr>"

text \<open>
  The event loop up to time \<open>t\<close>: the callbacks that are due resume and the timeouts that
  are due fire, in time order, each at its own time; then the clock reads \<open>t\<close>.
\<close>

function advance_to :: "int \<Rightarrow> store \<Rightarrow> store" where
  "advance_to t st =
     (case resuming st of
        c # cs \<Rightarrow>
          (case armed st of
             tm # tms \<Rightarrow>
               if c \<le> t \<and> c \<le> fires_at tm then
                 advance_to t (callback_resume (st\<lparr>time_now := max (time_now st) c, resuming := cs\<rparr>))
               else if fires_at tm \<le> t then
                 advance_to t
                   (callback_begin tm (st\<lparr>time_now := max (time_now st) (fires_at tm), armed := tms\<rparr>))
               else st\<lparr>time_now := max (time_now st) t\<rparr>
           | [] \<Rightarrow>
               if c \<le> t then
                 advance_to t (callback_resume (st\<lparr>time_now := max (time_now st) c, resuming := cs\<rparr>))
               else st\<lparr>time_now := max (time_now st) t\<rparr>)
      | [] \<Rightarrow>
          (case armed st of
             tm # tms \<Rightarrow>
               if fires_at tm \<le> t then
                 advance_to t
                   (callback_begin tm (st\<lparr>time_now := max (time_now st) (fires_at tm), armed := tms\<rparr>))
               else st\<lparr>time_now := max (time_now st) t\<rparr>
           | [] \<Rightarrow> st\<lparr>time_now := max (time_now st) t\<rparr>))"
  by pat_completeness auto
termination
  by (relation "measure (\<lambda>(t, st). 2 * length (armed st) + length (resuming st))")
     (auto simp add: callback_resume_def callback_begin_def save_end_def save_begin_def
        log_storage_def console_log_def Let_def split: option.splits)

declare advance_to.simps [simp del]

text \<open>
  An awaited \<^verbatim>\<open>save\<close> (lines 138 to 149): while the caller waits for the write, the event
  loop runs; the caller resumes \<open>write_ms\<close> after the write began.
\<close>

definition save :: "StorageData option \<Rightarrow> store \<Rightarrow> store \<times> thrown option" where
  "save state st =
     (case save_begin state st of
        Inl e \<Rightarrow> (st, Some e)
      | Inr st1 \<Rightarrow> (save_end (advance_to (time_now st1 + int (write_ms st1)) st1), None))"

text \<open>
  \<^verbatim>\<open>save(state)\<close> as seen by a caller that keeps its reference to \<open>state\<close>: the object the
  caller holds after the call (stamped in place by line 142, unless \<^verbatim>\<open>ensureInitialized\<close>
  threw before), the store, and the error if any.
\<close>

definition save_object :: "StorageData \<Rightarrow> store \<Rightarrow> StorageData \<times> store \<times> thrown option" where
  "save_object state st =
     (case save (Some state) st of
        (st1, None) \<Rightarrow> (stamp (Some state) st, st1, None)
      | (st1, Some e) \<Rightarrow> (state, st1, Some e))"

text \<open>Lines 69 to 108.\<close>

definition initialize :: "store \<Rightarrow> store \<times> thrown option" where
  "initialize st =
     (let st1 = (if \<not> dir_exists st
                 then log_storage ''Created data directory'' (st\<lparr>dir_exists := True\<rparr>)
                 else st);
          st2 = (case state_file st1 of
                   Some fileContent \<Rightarrow>
                     (case JSON_parse fileContent of
                        Inr loadedData \<Rightarrow>
                          (let d = spread_over (initializeEmptyState st1) loadedData
                           in log_storage
                                (''Loaded existing monitor state: ''
                                 @ string_of_nat (length (configs (services d))) @ '' services, ''
                                 @ string_of_nat (length (statuses (services d))) @ '' status, ''
                                 @ string_of_nat (length (slaves d)) @ '' slaves'')
                                (st1\<lparr>data := d\<rparr>))
                      | Inl parseError \<Rightarrow>
                          console_log LogWarn
                            ''Failed to parse existing state file, creating new one'' st1)
                 | None \<Rightarrow> st1\<lparr>data := initializeEmptyState st1\<rparr>);
          st3 = st2\<lparr>initialized := True\<rparr>
      in if state_file st3 = None then
           (case save None st3 of
              (st4, None) \<Rightarrow> (log_storage ''Created new monitor state file'' st4, None)
            | (st4, Some e) \<Rightarrow>
                (console_log LogError ''Failed to initialize storage'' st4, Some e))
         else (st3, None))"

text \<open>Lines 200 to 231.\<close>

definition addService :: "ServiceConfig \<Rightarrow> store \<Rightarrow> store \<times> thrown option" where
  "addService service st =
     (case load st of
        (st1, Inl e) \<Rightarrow> (st1, Some e)
      | (st1, Inr state) \<Rightarrow>
          (let now = time_now st1;
               serviceStatus = new_status service now;
               state1 = state\<lparr>services :=
                          (services state)\<lparr>statuses := statuses (services state) @ [serviceStatus]\<rparr>\<rparr>
           in (debouncedSave (Some state1) st1, None)))"

definition removeService :: "string \<Rightarrow> store \<Rightarrow> store \<times> thrown option" where
  "removeService sid st =
     (case load st of
        (st1, Inl e) \<Rightarrow> (st1, Some e)
      | (st1, Inr state) \<Rightarrow>
          (let state1 = state\<lparr>services :=
                          (services state)\<lparr>configs :=
                             filter (\<lambda>s. cfg_id s \<noteq> sid) (configs (services state))\<rparr>\<rparr>;
               state2 = state1\<lparr>services :=
                          (services state1)\<lparr>statuses :=
                             filter (\<lambda>s. status_id s \<noteq> sid) (statuses (services state1))\<rparr>\<rparr>
           in (debouncedSave (Some state2) st1, None)))"

text \<open>Calls arriving at the store at given times; \<open>DebouncedSave\<close> stands for the private
  method as the update methods call it.\<close>

datatype request =
    AddService ServiceConfig
  | RemoveService string
  | DebouncedSave "StorageData option"

fun handle :: "request \<Rightarrow> store \<Rightarrow> store" where
  "handle (AddService service) st = fst (addService service st)"
| "handle (RemoveService sid) st = fst (removeService sid st)"
| "handle (DebouncedSave state) st = debouncedSave state st"

fun run :: "(int \<times> request) list \<Rightarrow> store \<Rightarrow> store" where
  "run [] st = st"
| "run ((t, r) # rest) st = run rest (handle r (advance_to t st))"

text \<open>A store freshly constructed at time 1000 on an empty disk, where a write takes 2 ms,
  and the store after \<open>initialize\<close>.\<close>

definition fresh_store :: store where
  "fresh_store = new_Storage 1000 False None 2"

definition ready_store :: store where
  "ready_store = fst (initialize fresh_store)"

definition empty_data :: "int \<Rightarrow> StorageData" where
  "empty_data t = \<lparr>services = \<lparr>configs = [], statuses = []\<rparr>, slaves = [], lastUpdated = t\<rparr>"

section \<open>Vocabulary for statements about the store\<close>

text \<open>A snapshot holding the given configs and nothing else.\<close>

definition snapshot_of :: "ServiceConfig list \<Rightarrow> StorageData" where
  "snapshot_of cfgs =
     \<lparr>services = \<lparr>configs = cfgs, statuses = []\<rparr>, slaves = [], lastUpdated = 0\<rparr>"

text \<open>A snapshot with one config and its status, last stamped at time 0, and the same
  snapshot with a lifetime percentage that is \<^verbatim>\<open>NaN\<close>.\<close>

definition example_snapshot :: StorageData where
  "example_snapshot =
     \<lparr>services = \<lparr>configs = [example_http], statuses = [new_status example_http 500]\<rparr>,
      slaves = [], lastUpdated = 0\<rparr>"

definition nan_snapshot :: StorageData where
  "nan_snapshot =
     example_snapshot\<lparr>services :=
       \<lparr>configs = [example_http],
        statuses = [(new_status example_http 500)\<lparr>uptimePercentage := Some NaN\<rparr>]\<rparr>\<rparr>"



text \<open>The invariant in the words of the specification: every status id has exactly one
  config with that id.\<close>

definition status_ids_have_configs :: "StorageData \<Rightarrow> bool" where
  "status_ids_have_configs d =
     list_all (\<lambda>s. length (filter (\<lambda>c. cfg_id c = status_id s) (configs (services d))) = 1)
       (statuses (services d))"

text \<open>
  The store is idle but for one armed debounce timeout, set at time \<open>t\<close> for the state \<open>s\<close>,
  whose handle is the stored one.
\<close>

definition pending :: "store \<Rightarrow> int \<Rightarrow> StorageData option \<Rightarrow> bool" where
  "pending st t s =
     (initialized st \<and> resuming st = [] \<and> time_now st = t \<and>
      (\<exists>h. saveTimeout st = Some h \<and>
           armed st = [\<lparr>timer_id = h, fires_at = t + saveDebounceMs st, timer_arg = s\<rparr>]))"

text \<open>Requests in time order, each less than \<open>d\<close> after the one before (the first after
  time \<open>t\<close>); requests that all fall within one window of length \<open>d\<close> are so spaced.\<close>

fun spaced :: "int \<Rightarrow> int \<Rightarrow> (int \<times> 'a) list \<Rightarrow> bool" where
  "spaced d t [] = True"
| "spaced d t ((t', s) # rest) = (t \<le> t' \<and> t' < t + d \<and> spaced d t' rest)"

definition save_requests :: "(int \<times> StorageData option) list \<Rightarrow> (int \<times> request) list" where
  "save_requests reqs = map (\<lambda>(t, s). (t, DebouncedSave s)) reqs"

section \<open>UptimeSlave (part_002): the worker's scheduling of checks\<close>

text \<open>
  A check that has been started and whose \<^verbatim>\<open>checkService\<close> promise has not settled yet. The
  initial check made by \<open>addService\<close> carries the handle of the task that is registered once
  its report has been sent; a check started by a cron tick carries none.
\<close>

record pending_check =
  check_no :: nat
  check_service :: ServiceConfig
  then_register :: "nat option"

text \<open>
  The worker between two steps of its event loop: the monitor's service map, the \<^verbatim>\<open>tasks\<close>
  map from service id to task handle, the cron tasks that are scheduled and not stopped
  (each with the service its callback closes over), the checks in flight, and the results
  handed to \<^verbatim>\<open>sendReport\<close>, in order.
\<close>

record slave =
  monitor_services :: "string \<rightharpoonup> ServiceConfig"
  tasks :: "string \<rightharpoonup> nat"
  scheduled :: "(nat \<times> ServiceConfig) list"
  in_flight :: "pending_check list"
  reports :: "MonitoringResult list"
  next_task :: nat
  next_check :: nat

definition new_slave :: slave where
  "new_slave =
     \<lparr>monitor_services = Map.empty, tasks = Map.empty, scheduled = [], in_flight = [],
      reports = [], next_task = 0, next_check = 0\<rparr>"

definition start_check :: "ServiceConfig \<Rightarrow> nat option \<Rightarrow> slave \<Rightarrow> slave" where
  "start_check service reg st =
     st\<lparr>in_flight := in_flight st @
            [\<lparr>check_no = next_check st, check_service = service, then_register = reg\<rparr>],
        next_check := next_check st + 1\<rparr>"

text \<open>\<open>addService\<close> (lines 313 to 336) up to the \<^verbatim>\<open>await\<close> of the initial check: the service
  is added to the monitor, the cron task is created and started, and the check begins.\<close>

definition slave_addService_begin :: "ServiceConfig \<Rightarrow> slave \<Rightarrow> slave" where
  "slave_addService_begin service st =
     (let st1 = st\<lparr>monitor_services := (monitor_services st)(cfg_id service \<mapsto> service)\<rparr>;
          task = next_task st1;
          st2 = st1\<lparr>scheduled := scheduled st1 @ [(task, service)], next_task := task + 1\<rparr>
      in start_check service (Some task) st2)"

text \<open>The cron callback (lines 320 to 328) up to the \<^verbatim>\<open>await\<close> of the check; a stopped task
  does not fire.\<close>

definition cron_tick :: "nat \<Rightarrow> slave \<Rightarrow> slave" where
  "cron_tick task st =
     (case map_of (scheduled st) task of
        None \<Rightarrow> st
      | Some service \<Rightarrow> start_check service None st)"

text \<open>
  A check in flight settles with \<open>result\<close>: the result is handed to \<^verbatim>\<open>sendReport\<close> (lines 323
  and 332), whatever the registry holds by then. After the initial check of \<open>addService\<close>
  the task is registered (line 334) unless \<^verbatim>\<open>sendReport\<close> threw.
\<close>

definition check_settles :: "nat \<Rightarrow> MonitoringResult \<Rightarrow> bool \<Rightarrow> slave \<Rightarrow> slave" where
  "check_settles n result delivered st =
     (case find (\<lambda>c. check_no c = n) (in_flight st) of
        None \<Rightarrow> st
      | Some c \<Rightarrow>
          (let st1 = st\<lparr>in_flight := filter (\<lambda>c. check_no c \<noteq> n) (in_flight st),
                        reports := reports st @ [result]\<rparr>
           in case then_register c of
                Some task \<Rightarrow>
                  if delivered
                  then st1\<lparr>tasks := (tasks st1)(cfg_id (check_service c) \<mapsto> task)\<rparr>
                  else st1
              | None \<Rightarrow> st1))"

text \<open>\<open>removeService\<close> (lines 338 to 347).\<close>

definition slave_removeService :: "string \<Rightarrow> slave \<Rightarrow> slave" where
  "slave_removeService sid st =
     (let st1 = (case tasks st sid of
                   Some task \<Rightarrow>
                     st\<lparr>scheduled := filter (\<lambda>(h, s). h \<noteq> task) (scheduled st),
                        tasks := (tasks st)(sid := None)\<rparr>
                 | None \<Rightarrow> st)
      in st1\<lparr>monitor_services := (monitor_services st1)(sid := None)\<rparr>)"

datatype slave_event =
    AddCalled ServiceConfig
  | CronTick nat
  | CheckSettles nat MonitoringResult bool
  | RemoveCalled string

fun slave_step :: "slave \<Rightarrow> slave_event \<Rightarrow> slave" where
  "slave_step st (AddCalled service) = slave_addService_begin service st"
| "slave_step st (CronTick task) = cron_tick task st"
| "slave_step st (CheckSettles n result delivered) = check_settles n result delivered st"
| "slave_step st (RemoveCalled sid) = slave_removeService sid st"

definition slave_run :: "slave_event list \<Rightarrow> slave \<Rightarrow> slave" where
  "slave_run events st = foldl slave_step st events"

text \<open>Two results for the example HTTP service, and the worker after the service was added,
  its initial check reported, and one periodic check started.\<close>

definition result_up :: "int \<Rightarrow> MonitoringResult" where
  "result_up t =
     \<lparr>serviceId = ''svc-1'', timestamp = t, success = True, duration = 20,
      error = Some ''Unknown error''\<rparr>"

definition busy_slave :: slave where
  "busy_slave =
     slave_run [AddCalled example_http, CheckSettles 0 (result_up 100) True, CronTick 0] new_slave"

section \<open>Properties of the check executor\<close>

lemma string_of_nat_500: "string_of_nat 500 = ''500''"
  by code_simp

subsection \<open>A received response ends the retry loop\<close>

text \<open>
  C1 (as amended). For an HTTP service and \<open>retryAttempts \<ge> 1\<close>, a response received on the
  first attempt ends the retry loop whatever its status: both variants of
  \<open>checkHttpService\<close> make exactly one probe attempt and no inter-retry delay (the trace is
  the single fetch). When the status is 500, as it is when every probe attempt observes an
  HTTP 500 response, they return \<open>success = False\<close> with the error \<open>HTTP 500: \<close> followed by
  the status text.
\<close>

theorem checkHttpService_response_ends_retry_loop:
  assumes http: "cfg_type service = Http"
    and attempts: "1 \<le> retryAttempts config"
    and first: "fetch (cfg_url service) (or_number (cfg_timeout service) (timeout config)) 1
                  = (ms, Resolves r)"
  shows "snd (checkHttpService1 config fetch now service)
           = [Fetch (cfg_url service) (or_number (cfg_timeout service) (timeout config)) ms] \<and>
         (\<exists>res. checkHttpService2 config fetch now service
            = Inr (res, [Fetch (cfg_url service)
                           (or_number (cfg_timeout service) (timeout config)) ms])) \<and>
         (status r = 500 \<longrightarrow>
            checkHttpService1 config fetch now service =
              (\<lparr>serviceId = cfg_id service, timestamp = now + int ms, success = False,
                duration = int ms, error = Some (''HTTP 500: '' @ statusText r)\<rparr>,
               [Fetch (cfg_url service) (or_number (cfg_timeout service) (timeout config)) ms]) \<and>
            checkHttpService2 config fetch now service =
              Inr (\<lparr>serviceId = cfg_id service, timestamp = now + int ms, success = False,
                    duration = int ms, error = Some (''HTTP 500: '' @ statusText r)\<rparr>,
                   [Fetch (cfg_url service)
                      (or_number (cfg_timeout service) (timeout config)) ms]))"
proof (intro conjI impI)
  let ?u = "cfg_url service" and ?t = "or_number (cfg_timeout service) (timeout config)"
  show "snd (checkHttpService1 config fetch now service) = [Fetch ?u ?t ms]"
    using http attempts first
    by (simp add: checkHttpService1_def http_loop1.simps [of _ _ _ "Suc 0"] await_io_def
        Let_def)
  show "\<exists>res. checkHttpService2 config fetch now service = Inr (res, [Fetch ?u ?t ms])"
    using http attempts first
    by (simp add: checkHttpService2_def http_loop2.simps [of _ _ _ _ "Suc 0"] await_io_def
        Let_def)
next
  let ?u = "cfg_url service" and ?t = "or_number (cfg_timeout service) (timeout config)"
  assume s: "status r = 500"
  have nok: "\<not> ok r" using s by (simp add: ok_def)
  have r2: "on_response2 r = (False, Some (''HTTP 500: '' @ statusText r))"
    using s by (simp add: on_response2_def string_of_nat_500)
  show "checkHttpService1 config fetch now service =
      (\<lparr>serviceId = cfg_id service, timestamp = now + int ms, success = False,
        duration = int ms, error = Some (''HTTP 500: '' @ statusText r)\<rparr>, [Fetch ?u ?t ms])"
    using http attempts first nok s
    by (simp add: checkHttpService1_def http_loop1.simps [of _ _ _ "Suc 0"] await_io_def
        Let_def string_of_nat_500)
  show "checkHttpService2 config fetch now service =
      Inr (\<lparr>serviceId = cfg_id service, timestamp = now + int ms, success = False,
            duration = int ms, error = Some (''HTTP 500: '' @ statusText r)\<rparr>, [Fetch ?u ?t ms])"
    using http attempts first r2
    by (simp add: checkHttpService2_def http_loop2.simps [of _ _ _ _ "Suc 0"] await_io_def
        Let_def or_string_def)
qed

theorem checkHttpService_response_ends_retry_loop_witness:
  "checkHttpService1 example_config always_500 0 example_http =
     (\<lparr>serviceId = ''svc-1'', timestamp = 20, success = False, duration = 20,
       error = Some ''HTTP 500: Internal Server Error''\<rparr>,
      [Fetch ''http://api.test/status'' 5000 20]) \<and>
   checkHttpService2 example_config always_500 0 example_http =
     Inr (\<lparr>serviceId = ''svc-1'', timestamp = 20, success = False, duration = 20,
           error = Some ''HTTP 500: Internal Server Error''\<rparr>,
          [Fetch ''http://api.test/status'' 5000 20])"
  using checkHttpService_response_ends_retry_loop
      [of example_http example_config always_500 20
          "\<lparr>status = 500, statusText = ''Internal Server Error'', body_json = None\<rparr>" 0]
  by (simp add: example_config_def example_http_def always_500_def or_number_def)

text \<open>
  The claim as stated fails: with \<open>retryAttempts = 3\<close> and an endpoint that always answers
  500, each variant makes one probe attempt, not three, and never sleeps.
\<close>

theorem checkHttpService_status_500_three_attempts_counterexample:
  "retryAttempts example_config = 3 \<and>
   probe_attempts (snd (checkHttpService1 example_config always_500 0 example_http)) = 1 \<and>
   checkHttpService2 example_config always_500 0 example_http =
     Inr (\<lparr>serviceId = ''svc-1'', timestamp = 20, success = False, duration = 20,
           error = Some ''HTTP 500: Internal Server Error''\<rparr>,
          [Fetch ''http://api.test/status'' 5000 20])"
  by (simp add: example_config_def example_http_def always_500_def probe_attempts_def
      checkHttpService1_def checkHttpService2_def http_loop1.simps [of _ _ _ "Suc 0"]
      http_loop2.simps [of _ _ _ _ "Suc 0"] await_io_def Let_def or_number_def or_string_def
      ok_def on_response2_def string_of_nat_500)

subsection \<open>Thrown errors are retried\<close>

text \<open>When every attempt throws, the second variant makes \<open>retryAttempts\<close> attempts with a
  wait of 1000 ms between consecutive attempts, and reports failure.\<close>

lemma http_loop2_all_throw:
  assumes "int n = retryAttempts config"
    and "\<forall>j. a \<le> j \<and> j \<le> n \<longrightarrow>
           (\<exists>m e. fetch (cfg_url service) (or_number (cfg_timeout service) (timeout config)) j
                    = (m, Rejects e))"
    and "a \<le> n"
  shows "probe_attempts (trace (http_loop2 config fetch service st a v))
           = probe_attempts (trace v) + (n + 1 - a) \<and>
         sleeps (trace (http_loop2 config fetch service st a v))
           = sleeps (trace v) @ replicate (n - a) (Sleep 1000) \<and>
         success_var (http_loop2 config fetch service st a v) = success_var v"
  using assms
proof (induction "n - a" arbitrary: a v)
  case 0
  then have an: "a = n" by simp
  from 0 an obtain m e where
    rej: "fetch (cfg_url service) (or_number (cfg_timeout service) (timeout config)) n = (m, Rejects e)"
    by blast
  from an rej 0 show ?case
    by (subst http_loop2.simps, subst (2) http_loop2.simps, subst (3) http_loop2.simps)
       (simp add: Let_def await_io_def probe_attempts_def sleeps_def)
next
  case (Suc k)
  let ?u = "cfg_url service" and ?t = "or_number (cfg_timeout service) (timeout config)"
  from Suc have lt: "a < n" by simp
  with Suc.prems obtain m e where rej: "fetch ?u ?t a = (m, Rejects e)"
    by (metis less_or_eq_imp_le order_refl)
  have ne: "int a \<noteq> retryAttempts config" "int a \<le> retryAttempts config"
    using lt Suc.prems(1) by simp_all
  let ?v = "await_io (Sleep 1000)
          ((await_io (Fetch ?u ?t m) v)
            \<lparr>duration_var := clock (await_io (Fetch ?u ?t m) v) - st,
             error_var := Some (classify_error e)\<rparr>)"
  have step: "http_loop2 config fetch service st a v = http_loop2 config fetch service st (a + 1) ?v"
    using rej ne by (subst http_loop2.simps) (simp add: Let_def)
  have "k = n - (a + 1)" using Suc.hyps(2) by simp
  moreover have "\<forall>j. a + 1 \<le> j \<and> j \<le> n \<longrightarrow> (\<exists>m e. fetch ?u ?t j = (m, Rejects e))"
    using Suc.prems(2) by simp
  moreover have "a + 1 \<le> n" using lt by simp
  ultimately have ih: "probe_attempts (trace (http_loop2 config fetch service st (a + 1) ?v))
           = probe_attempts (trace ?v) + (n + 1 - (a + 1)) \<and>
         sleeps (trace (http_loop2 config fetch service st (a + 1) ?v))
           = sleeps (trace ?v) @ replicate (n - (a + 1)) (Sleep 1000) \<and>
         success_var (http_loop2 config fetch service st (a + 1) ?v) = success_var ?v"
    using Suc.hyps(1) [of "a + 1" ?v] Suc.prems(1) by blast
  have r: "replicate (n - a) (Sleep 1000) = Sleep 1000 # replicate (n - (a + 1)) (Sleep 1000)"
    using lt by (cases "n - a") simp_all
  from ih lt show ?case
    by (simp only: step r) (simp add: await_io_def probe_attempts_def sleeps_def)
qed

lemma checkHttpService2_all_attempts_throw:
  assumes "cfg_type service = Http" and "1 \<le> retryAttempts config"
    and "\<forall>j. 1 \<le> j \<and> int j \<le> retryAttempts config \<longrightarrow>
           (\<exists>m e. fetch (cfg_url service) (or_number (cfg_timeout service) (timeout config)) j
                    = (m, Rejects e))"
  shows "\<exists>res tr. checkHttpService2 config fetch now service = Inr (res, tr) \<and>
           \<not> success res \<and>
           probe_attempts tr = nat (retryAttempts config) \<and>
           sleeps tr = replicate (nat (retryAttempts config) - 1) (Sleep 1000)"
proof -
  let ?n = "nat (retryAttempts config)"
  have n: "int ?n = retryAttempts config" "1 \<le> ?n" using assms(2) by simp_all
  have "\<forall>j. 1 \<le> j \<and> j \<le> ?n \<longrightarrow>
           (\<exists>m e. fetch (cfg_url service) (or_number (cfg_timeout service) (timeout config)) j
                    = (m, Rejects e))"
    using assms(3) n by (metis nat_int nat_le_iff of_nat_le_iff)
  from http_loop2_all_throw [where a = 1 and n = ?n and fetch = fetch and service = service
      and config = config, OF n(1) this n(2)] assms(1)
  show ?thesis
    by (simp add: checkHttpService2_def Let_def probe_attempts_def sleeps_def)
qed

subsection \<open>The attempt that decides the outcome\<close>

text \<open>When attempts \<open>a, \<dots>, k - 1\<close> throw and attempt \<open>k\<close> receives a response, the second
  variant's loop leaves the values computed from that response alone.\<close>

lemma http_loop2_decided:
  assumes "int k \<le> retryAttempts config"
    and "fetch (cfg_url service) (or_number (cfg_timeout service) (timeout config)) k
           = (ms, Resolves r)"
    and "\<forall>j. a \<le> j \<and> j < k \<longrightarrow>
           (\<exists>m e. fetch (cfg_url service) (or_number (cfg_timeout service) (timeout config)) j
                    = (m, Rejects e))"
    and "a \<le> k"
  shows "duration_var (http_loop2 config fetch service st a v) = int ms \<and>
         success_var (http_loop2 config fetch service st a v) = fst (on_response2 r) \<and>
         error_var (http_loop2 config fetch service st a v) = snd (on_response2 r)"
  using assms
proof (induction "k - a" arbitrary: a v)
  case 0
  then have "a = k" by simp
  with 0 show ?case
    by (subst http_loop2.simps, subst (2) http_loop2.simps, subst (3) http_loop2.simps)
       (simp add: Let_def await_io_def)
next
  case (Suc n)
  let ?u = "cfg_url service" and ?t = "or_number (cfg_timeout service) (timeout config)"
  from Suc have lt: "a < k" by simp
  with Suc.prems obtain m e where rej: "fetch ?u ?t a = (m, Rejects e)"
    by blast
  have ne: "int a \<noteq> retryAttempts config" "int a \<le> retryAttempts config"
    using lt Suc.prems(1) by simp_all
  have step: "\<And>v. http_loop2 config fetch service st a v =
      http_loop2 config fetch service st (a + 1)
        (await_io (Sleep 1000)
          ((await_io (Fetch ?u ?t m) v)
            \<lparr>duration_var := clock (await_io (Fetch ?u ?t m) v) - st,
             error_var := Some (classify_error e)\<rparr>))"
    using rej ne by (subst http_loop2.simps) (simp add: Let_def)
  have "n = k - (a + 1)" using Suc.hyps(2) by simp
  moreover have "\<forall>j. a + 1 \<le> j \<and> j < k \<longrightarrow> (\<exists>m e. fetch ?u ?t j = (m, Rejects e))"
    using Suc.prems(3) by simp
  moreover have "a + 1 \<le> k" using lt by simp
  ultimately show ?case
    using Suc.hyps(1) [of "a + 1"] Suc.prems(1,2) by (simp only: step)
qed

text \<open>In the first variant the clock runs on through every failed attempt and every sleep
  before the attempt that receives the response.\<close>

lemma http_loop1_decided:
  assumes "cfg_type service = Http"
    and "int k \<le> retryAttempts config"
    and "fetch (cfg_url service) (or_number (cfg_timeout service) (timeout config)) k
           = (ms, Resolves r)"
    and "\<forall>j. a \<le> j \<and> j < k \<longrightarrow>
           (\<exists>m e. fetch (cfg_url service) (or_number (cfg_timeout service) (timeout config)) j
                    = (m, Rejects e))"
    and "a \<le> k"
  shows "clock (http_loop1 config fetch service a v)
           = clock v
             + (\<Sum>j = a..<k.
                  (int (fst (fetch (cfg_url service)
                                   (or_number (cfg_timeout service) (timeout config)) j)) + 1000))
             + int ms"
  using assms
proof (induction "k - a" arbitrary: a v)
  case 0
  then have "a = k" by simp
  with 0 show ?case
    by (subst http_loop1.simps) (simp add: Let_def await_io_def)
next
  case (Suc n)
  let ?u = "cfg_url service" and ?t = "or_number (cfg_timeout service) (timeout config)"
  from Suc have lt: "a < k" by simp
  with Suc.prems obtain m e where rej: "fetch ?u ?t a = (m, Rejects e)"
    by blast
  have ne: "int a \<noteq> retryAttempts config" "int a \<le> retryAttempts config"
    using lt Suc.prems(2) by simp_all
  let ?v = "await_io (Sleep 1000)
              ((await_io (Fetch ?u ?t m) v)\<lparr>error_var := Some (message_of e)\<rparr>)"
  have step: "http_loop1 config fetch service a v = http_loop1 config fetch service (a + 1) ?v"
    using rej ne Suc.prems(1) by (subst http_loop1.simps) (simp add: Let_def)
  have "n = k - (a + 1)" using Suc.hyps(2) by simp
  moreover have "\<forall>j. a + 1 \<le> j \<and> j < k \<longrightarrow> (\<exists>m e. fetch ?u ?t j = (m, Rejects e))"
    using Suc.prems(4) by simp
  moreover have "a + 1 \<le> k" using lt by simp
  ultimately have ih: "clock (http_loop1 config fetch service (a + 1) ?v)
      = clock ?v + (\<Sum>j = a + 1..<k. (int (fst (fetch ?u ?t j)) + 1000)) + int ms"
    using Suc.hyps(1) [of "a + 1" ?v] Suc.prems(1,2,3) by blast
  have split: "(\<Sum>j = a..<k. (int (fst (fetch ?u ?t j)) + 1000))
      = (int m + 1000) + (\<Sum>j = a + 1..<k. (int (fst (fetch ?u ?t j)) + 1000))"
    using lt rej by (simp add: sum.atLeast_Suc_lessThan)
  have "clock ?v = clock v + int m + 1000"
    by (simp add: await_io_def)
  with ih split show ?case
    by (simp only: step)
qed

text \<open>Both versions of the ping helper resolve, whatever the probe does.\<close>

lemma ping_module_resolves: "\<exists>ms result. ping_module probe host t n = (ms, PingResolves result)"
  by (cases "probe host (of_int (or_number t 5000) / 1000) n"; cases "snd (probe host (of_int (or_number t 5000) / 1000) n)")
     (simp_all add: ping_module_def Let_def)

lemma ping_spawn_resolves: "\<exists>ms result. ping_spawn spawn host t n = (ms, PingResolves result)"
  by (simp add: ping_spawn_def Let_def split: option.splits)

text \<open>
  C3 (as amended). In the second variant of the HTTP check, when the outcome is decided by
  a response received on attempt \<open>k\<close> (the earlier attempts threw), the returned duration is
  the wall time of attempt \<open>k\<close>'s request only. In the ICMP check a ping that resolves on
  the first attempt decides the outcome (the ping helper always resolves), and the
  duration is the wall time of that probe. In the first variant of the HTTP check the
  duration is measured from the start of the check: it is the request time of every
  earlier failed attempt, the 1000 ms sleep after each of them, and the request time of
  attempt \<open>k\<close>. (The duration of the second HTTP variant when the deciding attempt throws
  is left open.)
\<close>

theorem duration_of_deciding_attempt_by_variant:
  assumes "cfg_type service = Http"
    and "1 \<le> k" and "int k \<le> retryAttempts config"
    and "\<forall>j. 1 \<le> j \<and> j < k \<longrightarrow>
           (\<exists>m e. fetch (cfg_url service) (or_number (cfg_timeout service) (timeout config)) j
                    = (m, Rejects e))"
    and "fetch (cfg_url service) (or_number (cfg_timeout service) (timeout config)) k
           = (ms, Resolves r)"
    and "cfg_type service' = Icmp"
    and "1 \<le> retryAttempts config'"
    and "ping (cfg_host service') (or_number (cfg_timeout service') (timeout config')) 1
           = (pms, PingResolves result)"
  shows "(\<exists>res tr. checkHttpService2 config fetch now service = Inr (res, tr) \<and>
            duration res = int ms) \<and>
         checkIcmpService config' ping now' service' =
           (\<lparr>serviceId = cfg_id service', timestamp = now' + int pms,
             success = alive result, duration = int pms, error = icmp_error result\<rparr>,
            [Ping (cfg_host service') (or_number (cfg_timeout service') (timeout config'))
               pms]) \<and>
         duration (fst (checkHttpService1 config fetch now service))
           = (\<Sum>j = 1..<k.
                (int (fst (fetch (cfg_url service)
                                 (or_number (cfg_timeout service) (timeout config)) j)) + 1000))
             + int ms"
proof (intro conjI)
  show "\<exists>res tr. checkHttpService2 config fetch now service = Inr (res, tr) \<and>
          duration res = int ms"
    using assms(1) http_loop2_decided [where a = 1 and fetch = fetch and service = service
        and config = config, OF assms(3) assms(5) assms(4) assms(2)]
    by (simp add: checkHttpService2_def Let_def)
next
  show "checkIcmpService config' ping now' service' =
           (\<lparr>serviceId = cfg_id service', timestamp = now' + int pms,
             success = alive result, duration = int pms, error = icmp_error result\<rparr>,
            [Ping (cfg_host service') (or_number (cfg_timeout service') (timeout config'))
               pms])"
    using assms(6,7,8)
    by (simp add: checkIcmpService_def icmp_loop.simps [of _ _ _ "Suc 0"] icmp_try_def
        await_io_def Let_def)
next
  show "duration (fst (checkHttpService1 config fetch now service))
           = (\<Sum>j = 1..<k.
                (int (fst (fetch (cfg_url service)
                                 (or_number (cfg_timeout service) (timeout config)) j)) + 1000))
             + int ms"
    using http_loop1_decided [where a = 1 and fetch = fetch and service = service
        and config = config and v = "\<lparr>clock = now, error_var = None, success_var = False,
          duration_var = 0, trace = []\<rparr>", OF assms(1) assms(3) assms(5) assms(4) assms(2)]
    by (simp add: checkHttpService1_def Let_def)
qed

theorem duration_of_deciding_attempt_by_variant_witness:
  "(\<exists>res tr. checkHttpService2 example_config flaky_fetch 0 example_http = Inr (res, tr) \<and>
      duration res = 20) \<and>
   duration (fst (checkIcmpService example_config (ping_module steady_probe) 0 example_icmp))
     = 12 \<and>
   duration (fst (checkHttpService1 example_config flaky_fetch 0 example_http)) = 1070"
  using duration_of_deciding_attempt_by_variant
    [of example_http 2 example_config flaky_fetch 20
        "\<lparr>status = 200, statusText = ''OK'', body_json = Some (JArr [example_item])\<rparr>"
        example_icmp example_config "ping_module steady_probe" 12
        "\<lparr>alive = True, time = Some 11, ping_error = None\<rparr>" 0 0]
  by (auto simp add: example_config_def example_http_def example_icmp_def flaky_fetch_def
      ping_module_def steady_probe_def or_number_def Let_def sum.atLeast_Suc_lessThan)

text \<open>
  The claim as stated fails on the first HTTP variant: the first attempt throws after
  50 ms, the check sleeps 1000 ms, the second attempt receives its response after 20 ms,
  and the returned duration is 1070 ms, not 20 ms.
\<close>

theorem duration_deciding_attempt_only_counterexample:
  "checkHttpService1 example_config flaky_fetch 0 example_http =
     (\<lparr>serviceId = ''svc-1'', timestamp = 1070, success = True, duration = 1070,
       error = None\<rparr>,
      [Fetch ''http://api.test/status'' 5000 50, Sleep 1000,
       Fetch ''http://api.test/status'' 5000 20])"
  by (simp add: example_config_def example_http_def flaky_fetch_def checkHttpService1_def
      http_loop1.simps [of _ _ _ "Suc 0"] http_loop1.simps [of _ _ _ "Suc (Suc 0)"]
      await_io_def Let_def or_number_def ok_def)

subsection \<open>Validation of the response body (second variant)\<close>

lemma typeof_string: "(js_typeof x = ''string'') = is_str x"
  by (cases x rule: js_typeof.cases) simp_all

lemma typeof_number: "(js_typeof x = ''number'') = is_num x"
  by (cases x rule: js_typeof.cases) simp_all

lemma typeof_boolean: "(js_typeof x = ''boolean'') = is_bool x"
  by (cases x rule: js_typeof.cases) simp_all

lemma item_valid_shape: "(item_valid item = Inr True) = service_status_shape item"
proof (cases item)
  case (JObj props)
  then show ?thesis
    by (auto simp add: item_valid_def service_status_shape_def and_also_def prop_test_def
        typeof_string typeof_number typeof_boolean)
qed (simp_all add: item_valid_def service_status_shape_def and_also_def prop_test_def)

lemma every_item_valid:
  "(every item_valid items = Inr True) = list_all service_status_shape items"
proof (induction items)
  case Nil
  show ?case by simp
next
  case (Cons x xs)
  show ?case
  proof (cases "item_valid x")
    case (Inl e)
    with item_valid_shape [of x] show ?thesis by simp
  next
    case (Inr b)
    with item_valid_shape [of x] Cons show ?thesis by (cases b) simp_all
  qed
qed

lemma on_response2_success:
  "fst (on_response2 r) =
     (status r = 200 \<and>
      (\<exists>items. body_json r = Some (JArr items) \<and> list_all service_status_shape items))"
proof (cases "status r = 200")
  case False
  then show ?thesis by (simp add: on_response2_def)
next
  case True
  show ?thesis
  proof (cases "body_json r")
    case None
    with True show ?thesis by (simp add: on_response2_def)
  next
    case (Some data)
    show ?thesis
    proof (cases data)
      case (JArr items)
      with True Some every_item_valid [of items] show ?thesis
        by (cases "every item_valid items") (auto simp add: on_response2_def)
    qed (use True Some in \<open>simp_all add: on_response2_def\<close>)
  qed
qed

text \<open>
  C10. In the second variant of the HTTP check, the response that decides the check yields
  \<open>success = True\<close> if and only if its status is exactly 200 and its body parses as a JSON
  array in which every element has the service-status shape; any other status (other 2xx
  included), a body that is not an array, or invalid JSON yields \<open>success = False\<close>.
\<close>

theorem http2_success_iff_status_200_and_status_list:
  assumes "cfg_type service = Http"
    and "1 \<le> k" and "int k \<le> retryAttempts config"
    and "\<forall>j. 1 \<le> j \<and> j < k \<longrightarrow>
           (\<exists>m e. fetch (cfg_url service) (or_number (cfg_timeout service) (timeout config)) j
                    = (m, Rejects e))"
    and "fetch (cfg_url service) (or_number (cfg_timeout service) (timeout config)) k
           = (ms, Resolves r)"
  shows "\<exists>res tr. checkHttpService2 config fetch now service = Inr (res, tr) \<and>
           success res =
             (status r = 200 \<and>
              (\<exists>items. body_json r = Some (JArr items) \<and>
                        list_all service_status_shape items))"
  using assms(1) http_loop2_decided [where a = 1 and fetch = fetch and service = service
        and config = config, OF assms(3) assms(5) assms(4) assms(2)]
  by (simp add: checkHttpService2_def Let_def on_response2_success)

theorem http2_success_iff_status_200_and_status_list_witness:
  "\<exists>res tr. checkHttpService2 example_config flaky_fetch 0 example_http = Inr (res, tr) \<and>
     success res = True \<and> list_all service_status_shape [example_item]"
  using http2_success_iff_status_200_and_status_list
    [of example_http 2 example_config flaky_fetch 20
        "\<lparr>status = 200, statusText = ''OK'', body_json = Some (JArr [example_item])\<rparr>" 0]
  by (auto simp add: example_config_def example_http_def flaky_fetch_def example_item_def
      service_status_shape_def)

section \<open>Properties of the uptime percentages\<close>

lemma clamp_in_range:
  "x \<noteq> NaN \<Longrightarrow> in_percent_range (js_max (Fin 0) (js_min (Fin 100) x))"
  by (cases x) auto

lemma js_times100_NaN: "(js_times100 x = NaN) = (x = NaN)"
  by (cases x) simp_all

lemma js_div_NaN: "(js_div a b = NaN) = (a = 0 \<and> b = 0)"
  by (simp add: js_div_def)

text \<open>With a non-zero elapsed time both percentages are in range.\<close>

lemma calculateUptimePercentages_in_range:
  assumes "currentTime \<noteq> createdAt service"
  shows "in_percent_range (total (calculateUptimePercentages service currentTime))"
    and "in_percent_range (last30d (calculateUptimePercentages service currentTime))"
  using assms
  by (simp_all add: calculateUptimePercentages_def Let_def clamp_in_range js_times100_NaN
      js_div_NaN thirtyDays_def min_def)

text \<open>
  C2 (the code departs from the claim). At zero elapsed time, \<open>currentTime = createdAt\<close>,
  and with no downtime recorded, both divisions are \<open>0 / 0\<close>; the clamp
  \<^verbatim>\<open>Math.max(0, Math.min(100, x))\<close> passes \<^verbatim>\<open>NaN\<close> through, so both percentages are \<^verbatim>\<open>NaN\<close>
  and lie outside the interval from 0 to 100.
\<close>

theorem calculateUptimePercentages_zero_elapsed_is_NaN:
  "calculateUptimePercentages (service\<lparr>createdAt := t, downtimePeriods := []\<rparr>) t
     = \<lparr>total = NaN, last30d = NaN\<rparr> \<and>
   \<not> in_percent_range
       (total (calculateUptimePercentages (service\<lparr>createdAt := t, downtimePeriods := []\<rparr>) t)) \<and>
   \<not> in_percent_range
       (last30d (calculateUptimePercentages (service\<lparr>createdAt := t, downtimePeriods := []\<rparr>) t))"
  by (simp add: calculateUptimePercentages_def Let_def totalDowntimeMs_def
      recent30dDowntimeMs_def js_div_def thirtyDays_def)

text \<open>
  C4 (the code departs from the claim). The filter \<^verbatim>\<open>period.start >= thirtyDaysAgo\<close> drops
  every period that began before the window, so such a period contributes nothing instead
  of its clipped length. For a service created at time 0 whose outage began on day 5 and
  is still open on day 40, the window is days 10 to 40 and lies wholly inside the outage:
  the clipped downtime is 30 days (0 percent uptime over the window), yet the code counts
  no downtime and reports 100 percent. The denominator is \<open>min (currentTime - createdAt) 30d\<close>
  as claimed.
\<close>

theorem recent30d_drops_period_begun_before_window:
  "recent30dDowntimeMs long_outage_status (40 * 86400000) = 0 \<and>
   clipped_downtime30d long_outage_status (40 * 86400000) = thirtyDays \<and>
   min (40 * 86400000 - createdAt long_outage_status) thirtyDays = thirtyDays \<and>
   last30d (calculateUptimePercentages long_outage_status (40 * 86400000)) = Fin 100"
  by (simp add: long_outage_status_def new_status_def example_http_def
      calculateUptimePercentages_def recent30dDowntimeMs_def clipped_downtime30d_def
      totalDowntimeMs_def end_or_def thirtyDays_def js_div_def Let_def)

section \<open>Properties of the store\<close>

text \<open>With nothing armed and nothing resuming, or with one timeout that is not yet due, the
  event loop only moves the clock.\<close>

lemma advance_quiet:
  "resuming st = [] \<Longrightarrow> armed st = [] \<Longrightarrow> advance_to t st = st\<lparr>time_now := max (time_now st) t\<rparr>"
  by (subst advance_to.simps) simp

lemma advance_not_due:
  "resuming st = [] \<Longrightarrow> armed st = [tm] \<Longrightarrow> t < fires_at tm \<Longrightarrow>
     advance_to t st = st\<lparr>time_now := max (time_now st) t\<rparr>"
  by (subst advance_to.simps) simp

text \<open>The example store after \<open>initialize\<close>.\<close>

lemma ready_store_eq:
  "ready_store =
     \<lparr>initialized = True, data = empty_data 1000, saveTimeout = None, saveDebounceMs = 5000,
      time_now = 1002, dir_exists = True, state_file = Some (JsonText (empty_data 1000)),
      console = [(LogInfo, ''[STORAGE] Created data directory''),
                 (LogInfo, ''[STORAGE] Saved monitor state''),
                 (LogInfo, ''[STORAGE] Created new monitor state file'')],
      armed = [], resuming = [], next_timer = 0, write_ms = 2,
      writes = [(1000, JsonText (empty_data 1000))]\<rparr>"
  by (simp add: ready_store_def fresh_store_def new_Storage_def initialize_def Let_def
      log_storage_def console_log_def initializeEmptyState_def save_def save_begin_def stamp_def
      save_end_def ensureInitialized_def JSON_stringify_def empty_data_def advance_quiet)

subsection \<open>Loading a missing or corrupt state file\<close>

text \<open>
  C5 (as amended). \<open>initialize\<close> on a missing state file does not raise: it leaves the empty
  snapshot in memory and writes it to disk. \<open>initialize\<close> on a file of corrupt JSON does not
  raise either: it keeps the empty snapshot the store was constructed with and only logs a
  warning. \<open>loadState\<close> returns the empty snapshot for a missing file but raises the parse
  error for corrupt JSON; \<open>load\<close> logs an error and raises in both cases.
\<close>

theorem initialize_tolerates_missing_and_corrupt_load_raises:
  "snd (initialize (new_Storage t dir None w)) = None \<and>
   initialized (fst (initialize (new_Storage t dir None w))) \<and>
   data (fst (initialize (new_Storage t dir None w))) = empty_data t \<and>
   state_file (fst (initialize (new_Storage t dir None w))) = Some (JsonText (empty_data t)) \<and>
   snd (initialize (new_Storage t True (Some (Unparseable txt)) w)) = None \<and>
   initialized (fst (initialize (new_Storage t True (Some (Unparseable txt)) w))) \<and>
   data (fst (initialize (new_Storage t True (Some (Unparseable txt)) w))) = empty_data t \<and>
   console (fst (initialize (new_Storage t True (Some (Unparseable txt)) w)))
     = [(LogWarn, ''Failed to parse existing state file, creating new one'')] \<and>
   loadState (st\<lparr>state_file := None\<rparr>) = Inr (empty_data (time_now st)) \<and>
   loadState (st\<lparr>state_file := Some (Unparseable txt)\<rparr>)
     = Inl (JsError ''SyntaxError'' ''Unexpected token in JSON'' None) \<and>
   snd (load (st\<lparr>initialized := True, state_file := None\<rparr>))
     = Inl (JsError ''Error'' ''ENOENT: no such file or directory'' (Some ''ENOENT'')) \<and>
   snd (load (st\<lparr>initialized := True, state_file := Some (Unparseable txt)\<rparr>))
     = Inl (JsError ''SyntaxError'' ''Unexpected token in JSON'' None) \<and>
   console (fst (load (st\<lparr>initialized := True, state_file := None\<rparr>)))
     = console st @ [(LogError, ''Failed to load monitor state'')] \<and>
   console (fst (load (st\<lparr>initialized := True, state_file := Some (Unparseable txt)\<rparr>)))
     = console st @ [(LogError, ''Failed to load monitor state'')]"
  by (simp add: new_Storage_def initialize_def Let_def log_storage_def console_log_def
      initializeEmptyState_def save_def save_begin_def stamp_def save_end_def
      ensureInitialized_def JSON_stringify_def empty_data_def loadState_def load_def
      readFile_def advance_quiet)

text \<open>
  The claim as stated fails for \<open>load\<close> and \<open>loadState\<close>: on an initialized store whose file
  holds corrupt JSON, \<open>load\<close> logs an error and raises the \<^verbatim>\<open>SyntaxError\<close>, and so does
  \<open>loadState\<close>; on a missing file \<open>load\<close> raises \<^verbatim>\<open>ENOENT\<close>.
\<close>

theorem load_corrupt_or_missing_raises_counterexample:
  "snd (load (ready_store\<lparr>state_file := Some (Unparseable ''{oops'')\<rparr>))
     = Inl (JsError ''SyntaxError'' ''Unexpected token in JSON'' None) \<and>
   console (fst (load (ready_store\<lparr>state_file := Some (Unparseable ''{oops'')\<rparr>)))
     = console ready_store @ [(LogError, ''Failed to load monitor state'')] \<and>
   snd (load (ready_store\<lparr>state_file := None\<rparr>))
     = Inl (JsError ''Error'' ''ENOENT: no such file or directory'' (Some ''ENOENT'')) \<and>
   loadState (ready_store\<lparr>state_file := Some (Unparseable ''{oops'')\<rparr>)
     = Inl (JsError ''SyntaxError'' ''Unexpected token in JSON'' None)"
  by (simp add: ready_store_eq load_def loadState_def readFile_def ensureInitialized_def console_log_def)

subsection \<open>Saving and loading\<close>





text \<open>The snapshot must be well-formed: a percentage that is \<^verbatim>\<open>NaN\<close> is written as \<^verbatim>\<open>null\<close>
  and comes back as \<^verbatim>\<open>null\<close>.\<close>

lemma load_after_save_NaN_is_null:
  "map uptimePercentage
     (statuses (services (fst (save_object nan_snapshot ready_store)))) = [Some NaN] \<and>
   map_sum id (\<lambda>d. map uptimePercentage (statuses (services d)))
     (snd (load (fst (snd (save_object nan_snapshot ready_store))))) = Inr [None]"
  by (simp add: ready_store_eq save_object_def save_def save_begin_def stamp_def save_end_def
      load_def readFile_def ensureInitialized_def log_storage_def console_log_def Let_def
      advance_quiet JSON_stringify_def json_status_def nan_snapshot_def example_snapshot_def
      new_status_def)

subsection \<open>The event loop and the debounce\<close>

lemma pending_step:
  assumes "pending st t s" and "t \<le> t'" and "t' < t + saveDebounceMs st"
  shows "pending (debouncedSave s' (advance_to t' st)) t' s' \<and>
         writes (debouncedSave s' (advance_to t' st)) = writes st \<and>
         data (debouncedSave s' (advance_to t' st)) = data st \<and>
         saveDebounceMs (debouncedSave s' (advance_to t' st)) = saveDebounceMs st"
proof -
  from assms(1) obtain h where h: "saveTimeout st = Some h"
    "armed st = [\<lparr>timer_id = h, fires_at = t + saveDebounceMs st, timer_arg = s\<rparr>]"
    and r: "resuming st = []" "initialized st" "time_now st = t"
    by (auto simp add: pending_def)
  have "advance_to t' st = st\<lparr>time_now := max (time_now st) t'\<rparr>"
    using advance_not_due [OF r(1) h(2)] assms(3) by simp
  then show ?thesis using h r assms(2)
    by (simp add: pending_def debouncedSave_def Let_def)
qed

lemma pending_run:
  assumes "pending st t s" and "spaced (saveDebounceMs st) t reqs"
  shows "pending (run (save_requests reqs) st) (fst (last ((t, s) # reqs))) (snd (last ((t, s) # reqs))) \<and>
         writes (run (save_requests reqs) st) = writes st \<and>
         data (run (save_requests reqs) st) = data st \<and>
         saveDebounceMs (run (save_requests reqs) st) = saveDebounceMs st"
  using assms
proof (induction reqs arbitrary: st t s)
  case Nil
  then show ?case by (simp add: save_requests_def)
next
  case (Cons r reqs)
  obtain t' s' where r: "r = (t', s')" by (cases r)
  let ?st = "debouncedSave s' (advance_to t' st)"
  from Cons.prems r have sp: "t \<le> t'" "t' < t + saveDebounceMs st" "spaced (saveDebounceMs st) t' reqs"
    by simp_all
  note step = pending_step [OF Cons.prems(1) sp(1) sp(2), of s']
  from step sp(3) have "spaced (saveDebounceMs ?st) t' reqs" by simp
  from Cons.IH [OF conjunct1 [OF step] this] step r show ?case
    by (simp add: save_requests_def)
qed

lemma pending_first:
  assumes "initialized st" and "armed st = []" and "resuming st = []" and "time_now st \<le> t"
  shows "pending (debouncedSave s (advance_to t st)) t s \<and>
         writes (debouncedSave s (advance_to t st)) = writes st \<and>
         data (debouncedSave s (advance_to t st)) = data st \<and>
         saveDebounceMs (debouncedSave s (advance_to t st)) = saveDebounceMs st"
  using assms
  by (simp add: advance_quiet pending_def debouncedSave_def Let_def split: option.splits)

lemma pending_flush:
  assumes "pending st t s" and "t + saveDebounceMs st \<le> T" and "0 \<le> saveDebounceMs st"
  shows "writes (advance_to T st) =
           writes st @ [(t + saveDebounceMs st,
              JSON_stringify ((case s of Some x \<Rightarrow> x | None \<Rightarrow> data st)
                                \<lparr>lastUpdated := t + saveDebounceMs st\<rparr>))]"
proof -
  from assms(1) obtain h where h: "saveTimeout st = Some h"
    "armed st = [\<lparr>timer_id = h, fires_at = t + saveDebounceMs st, timer_arg = s\<rparr>]"
    and r: "resuming st = []" "initialized st" "time_now st = t"
    by (auto simp add: pending_def)
  let ?tm = "\<lparr>timer_id = h, fires_at = t + saveDebounceMs st, timer_arg = s\<rparr>"
  let ?st1 = "callback_begin ?tm (st\<lparr>time_now := max (time_now st) (fires_at ?tm), armed := []\<rparr>)"
  have a1: "advance_to T st = advance_to T ?st1"
    using h r assms(2) by (subst advance_to.simps) simp
  have w1: "writes ?st1 = writes st @ [(t + saveDebounceMs st,
              JSON_stringify ((case s of Some x \<Rightarrow> x | None \<Rightarrow> data st)
                                \<lparr>lastUpdated := t + saveDebounceMs st\<rparr>))]"
    and q1: "armed ?st1 = []" "resuming ?st1 = [t + saveDebounceMs st + int (write_ms st)]"
    using r assms(3)
    by (cases s; simp add: callback_begin_def save_begin_def stamp_def ensureInitialized_def Let_def max_def)+
  show ?thesis
  proof (cases "t + saveDebounceMs st + int (write_ms st) \<le> T")
    case False
    then have "advance_to T ?st1 = ?st1\<lparr>time_now := max (time_now ?st1) T\<rparr>"
      using q1 by (subst advance_to.simps) simp
    with a1 w1 show ?thesis by simp
  next
    case True
    let ?st2 = "callback_resume (?st1\<lparr>time_now := max (time_now ?st1) (t + saveDebounceMs st + int (write_ms st)), resuming := []\<rparr>)"
    have a2: "advance_to T ?st1 = advance_to T ?st2"
      using q1 True by (subst advance_to.simps) simp
    have q2: "armed ?st2 = []" "resuming ?st2 = []" "writes ?st2 = writes ?st1"
      using q1 by (simp_all add: callback_resume_def save_end_def log_storage_def console_log_def)
    from a1 a2 advance_quiet [OF q2(2) q2(1), of T] q2(3) w1 show ?thesis by simp
  qed
qed

text \<open>
  From an idle store (nothing armed, no callback awaiting its write), requests spaced less
  than a window apart cause exactly one write, one full window after the last request and
  of the state passed with it.
\<close>

lemma debounce_from_idle:
  assumes "initialized st" and "armed st = []" and "resuming st = []"
    and "0 \<le> saveDebounceMs st"
    and "time_now st \<le> t1" and "spaced (saveDebounceMs st) t1 rest"
    and "fst (last ((t1, s1) # rest)) + saveDebounceMs st \<le> T"
  shows "writes (advance_to T (run (save_requests ((t1, s1) # rest)) st)) =
           writes st @ [(fst (last ((t1, s1) # rest)) + saveDebounceMs st,
              JSON_stringify ((case snd (last ((t1, s1) # rest)) of Some x \<Rightarrow> x | None \<Rightarrow> data st)
                                \<lparr>lastUpdated := fst (last ((t1, s1) # rest)) + saveDebounceMs st\<rparr>))]"
proof -
  let ?st1 = "debouncedSave s1 (advance_to t1 st)"
  note f = pending_first [OF assms(1,2,3,5), of s1]
  from f assms(6) have "spaced (saveDebounceMs ?st1) t1 rest" by simp
  note r = pending_run [OF conjunct1 [OF f] this]
  have run: "run (save_requests ((t1, s1) # rest)) st = run (save_requests rest) ?st1"
    by (simp add: save_requests_def)
  from r f assms(4,7) pending_flush [OF conjunct1 [OF r], of T] show ?thesis
    by (simp only: run)
qed

text \<open>
  C6 (the code departs from the claim). The callback sets \<^verbatim>\<open>this.saveTimeout = null\<close> after
  awaiting its write. A request made while that write is in flight arms a new timeout and
  stores its handle; the resuming callback then erases the handle, so the next request
  cannot clear that timeout and both fire. Here the write begun at 7000 resumes at 7002;
  the requests at 7001 and 7003, 2 ms apart, are each written, at 12001 and at 12003. The
  same happens when the requests come from \<open>addService\<close> and \<open>removeService\<close>.
\<close>

theorem debounce_two_writes_when_save_in_flight:
  "writes (advance_to 30000
      (run [(2000, DebouncedSave (Some (snapshot_of []))),
            (7001, DebouncedSave (Some (snapshot_of [example_http]))),
            (7003, DebouncedSave (Some (snapshot_of [example_http, example_icmp])))] ready_store))
   = writes ready_store @
     [(7000, JsonText ((snapshot_of [])\<lparr>lastUpdated := 7000\<rparr>)),
      (12001, JsonText ((snapshot_of [example_http])\<lparr>lastUpdated := 12001\<rparr>)),
      (12003, JsonText ((snapshot_of [example_http, example_icmp])\<lparr>lastUpdated := 12003\<rparr>))] \<and>
   map fst (writes (advance_to 30000
      (run [(2000, AddService example_http), (7001, AddService example_icmp),
            (7003, RemoveService ''svc-1'')] ready_store)))
   = map fst (writes ready_store) @ [7000, 12001, 12003]"
  by code_simp

subsection \<open>Adding a service\<close>

text \<open>
  C8 (the code departs from the claim). \<open>addService\<close> appends the new status and never
  stores the config, while \<open>removeService\<close> filters both lists. After \<open>addService\<close> on the
  empty store and the debounced write, the stored state has the status id \<open>svc-1\<close> and no
  config.
\<close>

theorem addService_stores_status_without_config:
  "state_file (advance_to 20000 (run [(2000, AddService example_http)] ready_store))
     = Some (JsonText \<lparr>services = \<lparr>configs = [], statuses = [new_status example_http 2000]\<rparr>,
                       slaves = [], lastUpdated = 7000\<rparr>) \<and>
   \<not> status_ids_have_configs
        \<lparr>services = \<lparr>configs = [], statuses = [new_status example_http 2000]\<rparr>,
                       slaves = [], lastUpdated = 7000\<rparr>"
  apply (simp add: ready_store_eq advance_quiet addService_def load_def ensureInitialized_def readFile_def
     debouncedSave_def Let_def empty_data_def status_ids_have_configs_def)
  apply (subst advance_to.simps)
  apply (simp add: callback_begin_def save_begin_def stamp_def ensureInitialized_def Let_def JSON_stringify_def)
  apply (subst advance_to.simps)
  apply (simp add: callback_resume_def save_end_def log_storage_def console_log_def)
  apply (subst advance_to.simps)
  apply (simp add: json_status_def new_status_def)
  done

text \<open>\<open>removeService\<close>, by contrast, hands \<open>debouncedSave\<close> a state from which both the
  config and the status of the service are gone.\<close>

lemma removeService_filters_configs_and_statuses:
  assumes "initialized st" and "state_file st = Some (JsonText d)"
  shows "timer_arg (last (armed (fst (removeService sid st)))) =
           Some (d\<lparr>services :=
                   \<lparr>configs = filter (\<lambda>s. cfg_id s \<noteq> sid) (configs (services d)),
                    statuses = filter (\<lambda>s. status_id s \<noteq> sid) (statuses (services d))\<rparr>\<rparr>)"
  using assms
  by (simp add: removeService_def load_def ensureInitialized_def readFile_def debouncedSave_def
      Let_def split: option.splits)

section \<open>Properties of the worker's scheduling\<close>

lemma busy_slave_eq:
  "tasks busy_slave ''svc-1'' = Some 0 \<and> scheduled busy_slave = [(0, example_http)] \<and>
   in_flight busy_slave = [\<lparr>check_no = 1, check_service = example_http, then_register = None\<rparr>] \<and>
   reports busy_slave = [result_up 100]"
  by (simp add: busy_slave_def slave_run_def new_slave_def slave_addService_begin_def
      start_check_def check_settles_def cron_tick_def Let_def example_http_def)

lemma map_of_filter_handle: "map_of (filter (\<lambda>(h, s). h \<noteq> task) xs) task = None"
  by (induction xs) auto

text \<open>
  C9 (as amended). \<open>removeService\<close> on the worker unregisters the service and stops the cron
  task registered under its id, so that task starts no further check. It leaves the checks
  in flight alone, and there is no registration guard: when a check that was in flight at
  removal time settles, its result is handed to \<^verbatim>\<open>sendReport\<close>.
\<close>

theorem removeService_stops_task_not_in_flight_check:
  "tasks (slave_removeService sid st) sid = None \<and>
   monitor_services (slave_removeService sid st) sid = None \<and>
   (\<forall>task. tasks st sid = Some task \<longrightarrow>
      map_of (scheduled (slave_removeService sid st)) task = None \<and>
      cron_tick task (slave_removeService sid st) = slave_removeService sid st) \<and>
   in_flight (slave_removeService sid st) = in_flight st \<and>
   reports (slave_removeService sid st) = reports st \<and>
   (\<forall>c \<in> set (in_flight st).
      reports (check_settles (check_no c) result delivered (slave_removeService sid st))
        = reports st @ [result])"
proof -
  have inflight: "in_flight (slave_removeService sid st) = in_flight st"
    and rep: "reports (slave_removeService sid st) = reports st"
    by (simp_all add: slave_removeService_def Let_def split: option.splits)
  have "\<And>c. c \<in> set (in_flight st) \<Longrightarrow>
      reports (check_settles (check_no c) result delivered (slave_removeService sid st))
        = reports st @ [result]"
  proof -
    fix c assume "c \<in> set (in_flight st)"
    then have "find (\<lambda>x. check_no x = check_no c) (in_flight st) \<noteq> None"
      by (auto simp add: find_None_iff)
    then show "reports (check_settles (check_no c) result delivered (slave_removeService sid st))
        = reports st @ [result]"
      by (auto simp add: check_settles_def inflight rep Let_def split: option.splits)
  qed
  moreover have "tasks (slave_removeService sid st) sid = None"
    "monitor_services (slave_removeService sid st) sid = None"
    by (simp_all add: slave_removeService_def Let_def split: option.splits)
  moreover have "\<And>task. tasks st sid = Some task \<Longrightarrow>
      map_of (scheduled (slave_removeService sid st)) task = None \<and>
      cron_tick task (slave_removeService sid st) = slave_removeService sid st"
    by (simp add: slave_removeService_def Let_def cron_tick_def map_of_filter_handle)
  ultimately show ?thesis using inflight rep by blast
qed

theorem removeService_stops_task_not_in_flight_check_witness:
  "cron_tick 0 (slave_removeService ''svc-1'' busy_slave) = slave_removeService ''svc-1'' busy_slave \<and>
   reports (check_settles 1 (result_up 160) True (slave_removeService ''svc-1'' busy_slave))
     = [result_up 100, result_up 160]"
  using removeService_stops_task_not_in_flight_check [of "''svc-1''" busy_slave "result_up 160" True] busy_slave_eq
  by simp

text \<open>
  The claim as stated fails: the service is removed while check 1 is in flight; once the
  removal is complete (no task, no registry entry), the check settles and its result for
  \<open>svc-1\<close> is reported.
\<close>

theorem report_after_removeService_counterexample:
  "tasks (slave_run [RemoveCalled ''svc-1''] busy_slave) ''svc-1'' = None \<and>
   monitor_services (slave_run [RemoveCalled ''svc-1''] busy_slave) ''svc-1'' = None \<and>
   reports (slave_run [RemoveCalled ''svc-1''] busy_slave) = [result_up 100] \<and>
   reports (slave_run [RemoveCalled ''svc-1'', CheckSettles 1 (result_up 160) True] busy_slave)
     = [result_up 100, result_up 160] \<and>
   serviceId (result_up 160) = ''svc-1''"
  using busy_slave_eq
  by (simp add: slave_run_def slave_removeService_def check_settles_def Let_def result_up_def)

text \<open>
  A task is registered only once the initial check of \<open>addService\<close> has been reported. When
  the service is removed before that, no task is stopped, and the task is registered and
  stays scheduled after the removal.
\<close>

lemma removeService_during_initial_check_leaves_task:
  "tasks (slave_run [AddCalled example_http, RemoveCalled ''svc-1'',
                     CheckSettles 0 (result_up 100) True] new_slave) ''svc-1'' = Some 0 \<and>
   scheduled (slave_run [AddCalled example_http, RemoveCalled ''svc-1'',
                         CheckSettles 0 (result_up 100) True] new_slave) = [(0, example_http)]"
  by (simp add: slave_run_def new_slave_def slave_addService_begin_def start_check_def
      check_settles_def slave_removeService_def Let_def example_http_def)

end
